theory Spec2Isabelle
  imports Complex_Main "HOL-Library.Monad_Syntax"
begin

section \<open>Particle arrays\<close>

text \<open>
  The step methods of \<^verbatim>\<open>pysph/sph/integrator_step.py\<close> receive the property arrays of the
  destination particle array as arguments named \<^verbatim>\<open>d_<property>\<close>, together with the particle
  index \<^verbatim>\<open>d_idx\<close> and the time step \<^verbatim>\<open>dt\<close>. The arrays of one call are modelled together, as
  a function from the name of the argument to the array bound to it; an array is a list of reals.
  The source computes in double precision; the model computes in the real numbers, so
  rounding, infinities and NaN are outside of it.
\<close>

text \<open>The names of the array arguments that occur in the file.\<close>

datatype (plugins only: code) property =
    d_u | d_v | d_w | d_au | d_av | d_aw | d_x | d_y
  | d_z | d_rho | d_arho | d_x0 | d_y0 | d_z0 | d_u0 | d_v0
  | d_w0 | d_rho0 | d_ax | d_ay | d_az | d_s00 | d_s01 | d_s02
  | d_s11 | d_s12 | d_s22 | d_s000 | d_s010 | d_s020 | d_s110 | d_s120
  | d_s220 | d_e0 | d_e | d_ae | d_as00 | d_as01 | d_as02 | d_as11
  | d_as12 | d_as22 | d_uhat | d_auhat | d_vhat | d_avhat | d_vmag2 | d_h
  | d_h0 | d_converged | d_omega

type_synonym arrays = "property \<Rightarrow> real list"

text \<open>
  \<^verbatim>\<open>d_p[d_idx]\<close> as an expression and \<^verbatim>\<open>d_p[d_idx] = v\<close> as a statement. The index is a
  particle number, a natural number counted from 0. An index beyond the end of the array
  raises \<^verbatim>\<open>IndexError\<close>, which is the result \<open>None\<close>: the call is abandoned, and the
  model keeps nothing of what it had assigned before.
\<close>

definition getitem :: "arrays \<Rightarrow> property \<Rightarrow> nat \<Rightarrow> real option" where
  "getitem s p i = (if i < length (s p) then Some (s p ! i) else None)"

definition setitem :: "arrays \<Rightarrow> property \<Rightarrow> nat \<Rightarrow> real \<Rightarrow> arrays option" where
  "setitem s p i v = (if i < length (s p) then Some (s(p := (s p)[i := v])) else None)"

section \<open>The integrator steps\<close>

text \<open>
  One definition for each method, statement by statement and in the order of the source.
  An augmented assignment \<^verbatim>\<open>d_p[d_idx] += e\<close> reads \<^verbatim>\<open>d_p[d_idx]\<close>, evaluates \<^verbatim>\<open>e\<close> and stores
  the sum. A method whose body is \<^verbatim>\<open>pass\<close> returns the arrays as they are.
\<close>

subsection \<open>\<^verbatim>\<open>IntegratorStep\<close>\<close>

definition IntegratorStep_initialize :: "nat \<Rightarrow> arrays \<Rightarrow> arrays option" where
  "IntegratorStep_initialize d_idx s = Some s"

definition IntegratorStep_stage1 :: "nat \<Rightarrow> real \<Rightarrow> arrays \<Rightarrow> arrays option" where
  "IntegratorStep_stage1 d_idx dt s = Some s"

definition IntegratorStep_stage2 :: "nat \<Rightarrow> real \<Rightarrow> arrays \<Rightarrow> arrays option" where
  "IntegratorStep_stage2 d_idx dt s = Some s"

subsection \<open>\<^verbatim>\<open>EulerStep\<close>\<close>

definition EulerStep_initialize :: "nat \<Rightarrow> arrays \<Rightarrow> arrays option" where
  "EulerStep_initialize d_idx s = Some s"

definition EulerStep_stage1 :: "nat \<Rightarrow> real \<Rightarrow> arrays \<Rightarrow> arrays option" where
  "EulerStep_stage1 d_idx dt s = do {
     u \<leftarrow> getitem s d_u d_idx; au \<leftarrow> getitem s d_au d_idx;
     s \<leftarrow> setitem s d_u d_idx (u + dt * au);
     v \<leftarrow> getitem s d_v d_idx; av \<leftarrow> getitem s d_av d_idx;
     s \<leftarrow> setitem s d_v d_idx (v + dt * av);
     w \<leftarrow> getitem s d_w d_idx; aw \<leftarrow> getitem s d_aw d_idx;
     s \<leftarrow> setitem s d_w d_idx (w + dt * aw);
     x \<leftarrow> getitem s d_x d_idx; u \<leftarrow> getitem s d_u d_idx;
     s \<leftarrow> setitem s d_x d_idx (x + dt * u);
     y \<leftarrow> getitem s d_y d_idx; v \<leftarrow> getitem s d_v d_idx;
     s \<leftarrow> setitem s d_y d_idx (y + dt * v);
     z \<leftarrow> getitem s d_z d_idx; w \<leftarrow> getitem s d_w d_idx;
     s \<leftarrow> setitem s d_z d_idx (z + dt * w);
     rho \<leftarrow> getitem s d_rho d_idx; arho \<leftarrow> getitem s d_arho d_idx;
     s \<leftarrow> setitem s d_rho d_idx (rho + dt * arho);
     Some s
   }"

subsection \<open>\<^verbatim>\<open>WCSPHStep\<close>\<close>

definition WCSPHStep_initialize :: "nat \<Rightarrow> arrays \<Rightarrow> arrays option" where
  "WCSPHStep_initialize d_idx s = do {
     x \<leftarrow> getitem s d_x d_idx;
     s \<leftarrow> setitem s d_x0 d_idx x;
     y \<leftarrow> getitem s d_y d_idx;
     s \<leftarrow> setitem s d_y0 d_idx y;
     z \<leftarrow> getitem s d_z d_idx;
     s \<leftarrow> setitem s d_z0 d_idx z;
     u \<leftarrow> getitem s d_u d_idx;
     s \<leftarrow> setitem s d_u0 d_idx u;
     v \<leftarrow> getitem s d_v d_idx;
     s \<leftarrow> setitem s d_v0 d_idx v;
     w \<leftarrow> getitem s d_w d_idx;
     s \<leftarrow> setitem s d_w0 d_idx w;
     rho \<leftarrow> getitem s d_rho d_idx;
     s \<leftarrow> setitem s d_rho0 d_idx rho;
     Some s
   }"

definition WCSPHStep_stage1 :: "nat \<Rightarrow> real \<Rightarrow> arrays \<Rightarrow> arrays option" where
  "WCSPHStep_stage1 d_idx dt s = do {
     let dtb2 = 0.5 * dt;
     u0 \<leftarrow> getitem s d_u0 d_idx; au \<leftarrow> getitem s d_au d_idx;
     s \<leftarrow> setitem s d_u d_idx (u0 + dtb2 * au);
     v0 \<leftarrow> getitem s d_v0 d_idx; av \<leftarrow> getitem s d_av d_idx;
     s \<leftarrow> setitem s d_v d_idx (v0 + dtb2 * av);
     w0 \<leftarrow> getitem s d_w0 d_idx; aw \<leftarrow> getitem s d_aw d_idx;
     s \<leftarrow> setitem s d_w d_idx (w0 + dtb2 * aw);
     x0 \<leftarrow> getitem s d_x0 d_idx; ax \<leftarrow> getitem s d_ax d_idx;
     s \<leftarrow> setitem s d_x d_idx (x0 + dtb2 * ax);
     y0 \<leftarrow> getitem s d_y0 d_idx; ay \<leftarrow> getitem s d_ay d_idx;
     s \<leftarrow> setitem s d_y d_idx (y0 + dtb2 * ay);
     z0 \<leftarrow> getitem s d_z0 d_idx; az \<leftarrow> getitem s d_az d_idx;
     s \<leftarrow> setitem s d_z d_idx (z0 + dtb2 * az);
     rho0 \<leftarrow> getitem s d_rho0 d_idx; arho \<leftarrow> getitem s d_arho d_idx;
     s \<leftarrow> setitem s d_rho d_idx (rho0 + dtb2 * arho);
     Some s
   }"

definition WCSPHStep_stage2 :: "nat \<Rightarrow> real \<Rightarrow> arrays \<Rightarrow> arrays option" where
  "WCSPHStep_stage2 d_idx dt s = do {
     u0 \<leftarrow> getitem s d_u0 d_idx; au \<leftarrow> getitem s d_au d_idx;
     s \<leftarrow> setitem s d_u d_idx (u0 + dt * au);
     v0 \<leftarrow> getitem s d_v0 d_idx; av \<leftarrow> getitem s d_av d_idx;
     s \<leftarrow> setitem s d_v d_idx (v0 + dt * av);
     w0 \<leftarrow> getitem s d_w0 d_idx; aw \<leftarrow> getitem s d_aw d_idx;
     s \<leftarrow> setitem s d_w d_idx (w0 + dt * aw);
     x0 \<leftarrow> getitem s d_x0 d_idx; ax \<leftarrow> getitem s d_ax d_idx;
     s \<leftarrow> setitem s d_x d_idx (x0 + dt * ax);
     y0 \<leftarrow> getitem s d_y0 d_idx; ay \<leftarrow> getitem s d_ay d_idx;
     s \<leftarrow> setitem s d_y d_idx (y0 + dt * ay);
     z0 \<leftarrow> getitem s d_z0 d_idx; az \<leftarrow> getitem s d_az d_idx;
     s \<leftarrow> setitem s d_z d_idx (z0 + dt * az);
     rho0 \<leftarrow> getitem s d_rho0 d_idx; arho \<leftarrow> getitem s d_arho d_idx;
     s \<leftarrow> setitem s d_rho d_idx (rho0 + dt * arho);
     Some s
   }"

subsection \<open>\<^verbatim>\<open>WCSPHTVDRK3Step\<close>\<close>

text \<open>
  The coefficients \<^verbatim>\<open>0.75\<close>, \<^verbatim>\<open>0.25\<close>, \<^verbatim>\<open>1./3.\<close> and \<^verbatim>\<open>2./3.\<close> are doubles in the source, the last
  two rounded; here they are the fractions 3/4, 1/4, 1/3 and 2/3. What is proved of this
  scheme is an identity of exact arithmetic.
\<close>

definition WCSPHTVDRK3Step_initialize :: "nat \<Rightarrow> arrays \<Rightarrow> arrays option" where
  "WCSPHTVDRK3Step_initialize d_idx s = do {
     x \<leftarrow> getitem s d_x d_idx;
     s \<leftarrow> setitem s d_x0 d_idx x;
     y \<leftarrow> getitem s d_y d_idx;
     s \<leftarrow> setitem s d_y0 d_idx y;
     z \<leftarrow> getitem s d_z d_idx;
     s \<leftarrow> setitem s d_z0 d_idx z;
     u \<leftarrow> getitem s d_u d_idx;
     s \<leftarrow> setitem s d_u0 d_idx u;
     v \<leftarrow> getitem s d_v d_idx;
     s \<leftarrow> setitem s d_v0 d_idx v;
     w \<leftarrow> getitem s d_w d_idx;
     s \<leftarrow> setitem s d_w0 d_idx w;
     rho \<leftarrow> getitem s d_rho d_idx;
     s \<leftarrow> setitem s d_rho0 d_idx rho;
     Some s
   }"

definition WCSPHTVDRK3Step_stage1 :: "nat \<Rightarrow> real \<Rightarrow> arrays \<Rightarrow> arrays option" where
  "WCSPHTVDRK3Step_stage1 d_idx dt s = do {
     u0 \<leftarrow> getitem s d_u0 d_idx; au \<leftarrow> getitem s d_au d_idx;
     s \<leftarrow> setitem s d_u d_idx (u0 + dt * au);
     v0 \<leftarrow> getitem s d_v0 d_idx; av \<leftarrow> getitem s d_av d_idx;
     s \<leftarrow> setitem s d_v d_idx (v0 + dt * av);
     w0 \<leftarrow> getitem s d_w0 d_idx; aw \<leftarrow> getitem s d_aw d_idx;
     s \<leftarrow> setitem s d_w d_idx (w0 + dt * aw);
     x0 \<leftarrow> getitem s d_x0 d_idx; ax \<leftarrow> getitem s d_ax d_idx;
     s \<leftarrow> setitem s d_x d_idx (x0 + dt * ax);
     y0 \<leftarrow> getitem s d_y0 d_idx; ay \<leftarrow> getitem s d_ay d_idx;
     s \<leftarrow> setitem s d_y d_idx (y0 + dt * ay);
     z0 \<leftarrow> getitem s d_z0 d_idx; az \<leftarrow> getitem s d_az d_idx;
     s \<leftarrow> setitem s d_z d_idx (z0 + dt * az);
     rho0 \<leftarrow> getitem s d_rho0 d_idx; arho \<leftarrow> getitem s d_arho d_idx;
     s \<leftarrow> setitem s d_rho d_idx (rho0 + dt * arho);
     Some s
   }"

definition WCSPHTVDRK3Step_stage2 :: "nat \<Rightarrow> real \<Rightarrow> arrays \<Rightarrow> arrays option" where
  "WCSPHTVDRK3Step_stage2 d_idx dt s = do {
     u0 \<leftarrow> getitem s d_u0 d_idx; u \<leftarrow> getitem s d_u d_idx; au \<leftarrow> getitem s d_au d_idx;
     s \<leftarrow> setitem s d_u d_idx (0.75 * u0 + 0.25 * (u + dt * au));
     v0 \<leftarrow> getitem s d_v0 d_idx; v \<leftarrow> getitem s d_v d_idx; av \<leftarrow> getitem s d_av d_idx;
     s \<leftarrow> setitem s d_v d_idx (0.75 * v0 + 0.25 * (v + dt * av));
     w0 \<leftarrow> getitem s d_w0 d_idx; w \<leftarrow> getitem s d_w d_idx; aw \<leftarrow> getitem s d_aw d_idx;
     s \<leftarrow> setitem s d_w d_idx (0.75 * w0 + 0.25 * (w + dt * aw));
     x0 \<leftarrow> getitem s d_x0 d_idx; x \<leftarrow> getitem s d_x d_idx; ax \<leftarrow> getitem s d_ax d_idx;
     s \<leftarrow> setitem s d_x d_idx (0.75 * x0 + 0.25 * (x + dt * ax));
     y0 \<leftarrow> getitem s d_y0 d_idx; y \<leftarrow> getitem s d_y d_idx; ay \<leftarrow> getitem s d_ay d_idx;
     s \<leftarrow> setitem s d_y d_idx (0.75 * y0 + 0.25 * (y + dt * ay));
     z0 \<leftarrow> getitem s d_z0 d_idx; z \<leftarrow> getitem s d_z d_idx; az \<leftarrow> getitem s d_az d_idx;
     s \<leftarrow> setitem s d_z d_idx (0.75 * z0 + 0.25 * (z + dt * az));
     rho0 \<leftarrow> getitem s d_rho0 d_idx; rho \<leftarrow> getitem s d_rho d_idx; arho \<leftarrow> getitem s d_arho d_idx;
     s \<leftarrow> setitem s d_rho d_idx (0.75 * rho0 + 0.25 * (rho + dt * arho));
     Some s
   }"

definition WCSPHTVDRK3Step_stage3 :: "nat \<Rightarrow> real \<Rightarrow> arrays \<Rightarrow> arrays option" where
  "WCSPHTVDRK3Step_stage3 d_idx dt s = do {
     let oneby3 = 1 / 3;
     let twoby3 = 2 / 3;
     u0 \<leftarrow> getitem s d_u0 d_idx; u \<leftarrow> getitem s d_u d_idx; au \<leftarrow> getitem s d_au d_idx;
     s \<leftarrow> setitem s d_u d_idx (oneby3 * u0 + twoby3 * (u + dt * au));
     v0 \<leftarrow> getitem s d_v0 d_idx; v \<leftarrow> getitem s d_v d_idx; av \<leftarrow> getitem s d_av d_idx;
     s \<leftarrow> setitem s d_v d_idx (oneby3 * v0 + twoby3 * (v + dt * av));
     w0 \<leftarrow> getitem s d_w0 d_idx; w \<leftarrow> getitem s d_w d_idx; aw \<leftarrow> getitem s d_aw d_idx;
     s \<leftarrow> setitem s d_w d_idx (oneby3 * w0 + twoby3 * (w + dt * aw));
     x0 \<leftarrow> getitem s d_x0 d_idx; x \<leftarrow> getitem s d_x d_idx; ax \<leftarrow> getitem s d_ax d_idx;
     s \<leftarrow> setitem s d_x d_idx (oneby3 * x0 + twoby3 * (x + dt * ax));
     y0 \<leftarrow> getitem s d_y0 d_idx; y \<leftarrow> getitem s d_y d_idx; ay \<leftarrow> getitem s d_ay d_idx;
     s \<leftarrow> setitem s d_y d_idx (oneby3 * y0 + twoby3 * (y + dt * ay));
     z0 \<leftarrow> getitem s d_z0 d_idx; z \<leftarrow> getitem s d_z d_idx; az \<leftarrow> getitem s d_az d_idx;
     s \<leftarrow> setitem s d_z d_idx (oneby3 * z0 + twoby3 * (z + dt * az));
     rho0 \<leftarrow> getitem s d_rho0 d_idx; rho \<leftarrow> getitem s d_rho d_idx; arho \<leftarrow> getitem s d_arho d_idx;
     s \<leftarrow> setitem s d_rho d_idx (oneby3 * rho0 + twoby3 * (rho + dt * arho));
     Some s
   }"

subsection \<open>\<^verbatim>\<open>SolidMechStep\<close>\<close>

definition SolidMechStep_initialize :: "nat \<Rightarrow> arrays \<Rightarrow> arrays option" where
  "SolidMechStep_initialize d_idx s = do {
     x \<leftarrow> getitem s d_x d_idx;
     s \<leftarrow> setitem s d_x0 d_idx x;
     y \<leftarrow> getitem s d_y d_idx;
     s \<leftarrow> setitem s d_y0 d_idx y;
     z \<leftarrow> getitem s d_z d_idx;
     s \<leftarrow> setitem s d_z0 d_idx z;
     u \<leftarrow> getitem s d_u d_idx;
     s \<leftarrow> setitem s d_u0 d_idx u;
     v \<leftarrow> getitem s d_v d_idx;
     s \<leftarrow> setitem s d_v0 d_idx v;
     w \<leftarrow> getitem s d_w d_idx;
     s \<leftarrow> setitem s d_w0 d_idx w;
     rho \<leftarrow> getitem s d_rho d_idx;
     s \<leftarrow> setitem s d_rho0 d_idx rho;
     e \<leftarrow> getitem s d_e d_idx;
     s \<leftarrow> setitem s d_e0 d_idx e;
     s00 \<leftarrow> getitem s d_s00 d_idx;
     s \<leftarrow> setitem s d_s000 d_idx s00;
     s01 \<leftarrow> getitem s d_s01 d_idx;
     s \<leftarrow> setitem s d_s010 d_idx s01;
     s02 \<leftarrow> getitem s d_s02 d_idx;
     s \<leftarrow> setitem s d_s020 d_idx s02;
     s11 \<leftarrow> getitem s d_s11 d_idx;
     s \<leftarrow> setitem s d_s110 d_idx s11;
     s12 \<leftarrow> getitem s d_s12 d_idx;
     s \<leftarrow> setitem s d_s120 d_idx s12;
     s22 \<leftarrow> getitem s d_s22 d_idx;
     s \<leftarrow> setitem s d_s220 d_idx s22;
     Some s
   }"

definition SolidMechStep_stage1 :: "nat \<Rightarrow> real \<Rightarrow> arrays \<Rightarrow> arrays option" where
  "SolidMechStep_stage1 d_idx dt s = do {
     let dtb2 = 0.5 * dt;
     u0 \<leftarrow> getitem s d_u0 d_idx; au \<leftarrow> getitem s d_au d_idx;
     s \<leftarrow> setitem s d_u d_idx (u0 + dtb2 * au);
     v0 \<leftarrow> getitem s d_v0 d_idx; av \<leftarrow> getitem s d_av d_idx;
     s \<leftarrow> setitem s d_v d_idx (v0 + dtb2 * av);
     w0 \<leftarrow> getitem s d_w0 d_idx; aw \<leftarrow> getitem s d_aw d_idx;
     s \<leftarrow> setitem s d_w d_idx (w0 + dtb2 * aw);
     x0 \<leftarrow> getitem s d_x0 d_idx; ax \<leftarrow> getitem s d_ax d_idx;
     s \<leftarrow> setitem s d_x d_idx (x0 + dtb2 * ax);
     y0 \<leftarrow> getitem s d_y0 d_idx; ay \<leftarrow> getitem s d_ay d_idx;
     s \<leftarrow> setitem s d_y d_idx (y0 + dtb2 * ay);
     z0 \<leftarrow> getitem s d_z0 d_idx; az \<leftarrow> getitem s d_az d_idx;
     s \<leftarrow> setitem s d_z d_idx (z0 + dtb2 * az);
     rho0 \<leftarrow> getitem s d_rho0 d_idx; arho \<leftarrow> getitem s d_arho d_idx;
     s \<leftarrow> setitem s d_rho d_idx (rho0 + dtb2 * arho);
     e0 \<leftarrow> getitem s d_e0 d_idx; ae \<leftarrow> getitem s d_ae d_idx;
     s \<leftarrow> setitem s d_e d_idx (e0 + dtb2 * ae);
     s000 \<leftarrow> getitem s d_s000 d_idx; as00 \<leftarrow> getitem s d_as00 d_idx;
     s \<leftarrow> setitem s d_s00 d_idx (s000 + dtb2 * as00);
     s010 \<leftarrow> getitem s d_s010 d_idx; as01 \<leftarrow> getitem s d_as01 d_idx;
     s \<leftarrow> setitem s d_s01 d_idx (s010 + dtb2 * as01);
     s020 \<leftarrow> getitem s d_s020 d_idx; as02 \<leftarrow> getitem s d_as02 d_idx;
     s \<leftarrow> setitem s d_s02 d_idx (s020 + dtb2 * as02);
     s110 \<leftarrow> getitem s d_s110 d_idx; as11 \<leftarrow> getitem s d_as11 d_idx;
     s \<leftarrow> setitem s d_s11 d_idx (s110 + dtb2 * as11);
     s120 \<leftarrow> getitem s d_s120 d_idx; as12 \<leftarrow> getitem s d_as12 d_idx;
     s \<leftarrow> setitem s d_s12 d_idx (s120 + dtb2 * as12);
     s220 \<leftarrow> getitem s d_s220 d_idx; as22 \<leftarrow> getitem s d_as22 d_idx;
     s \<leftarrow> setitem s d_s22 d_idx (s220 + dtb2 * as22);
     Some s
   }"

definition SolidMechStep_stage2 :: "nat \<Rightarrow> real \<Rightarrow> arrays \<Rightarrow> arrays option" where
  "SolidMechStep_stage2 d_idx dt s = do {
     u0 \<leftarrow> getitem s d_u0 d_idx; au \<leftarrow> getitem s d_au d_idx;
     s \<leftarrow> setitem s d_u d_idx (u0 + dt * au);
     v0 \<leftarrow> getitem s d_v0 d_idx; av \<leftarrow> getitem s d_av d_idx;
     s \<leftarrow> setitem s d_v d_idx (v0 + dt * av);
     w0 \<leftarrow> getitem s d_w0 d_idx; aw \<leftarrow> getitem s d_aw d_idx;
     s \<leftarrow> setitem s d_w d_idx (w0 + dt * aw);
     x0 \<leftarrow> getitem s d_x0 d_idx; ax \<leftarrow> getitem s d_ax d_idx;
     s \<leftarrow> setitem s d_x d_idx (x0 + dt * ax);
     y0 \<leftarrow> getitem s d_y0 d_idx; ay \<leftarrow> getitem s d_ay d_idx;
     s \<leftarrow> setitem s d_y d_idx (y0 + dt * ay);
     z0 \<leftarrow> getitem s d_z0 d_idx; az \<leftarrow> getitem s d_az d_idx;
     s \<leftarrow> setitem s d_z d_idx (z0 + dt * az);
     rho0 \<leftarrow> getitem s d_rho0 d_idx; arho \<leftarrow> getitem s d_arho d_idx;
     s \<leftarrow> setitem s d_rho d_idx (rho0 + dt * arho);
     e0 \<leftarrow> getitem s d_e0 d_idx; ae \<leftarrow> getitem s d_ae d_idx;
     s \<leftarrow> setitem s d_e d_idx (e0 + dt * ae);
     s000 \<leftarrow> getitem s d_s000 d_idx; as00 \<leftarrow> getitem s d_as00 d_idx;
     s \<leftarrow> setitem s d_s00 d_idx (s000 + dt * as00);
     s010 \<leftarrow> getitem s d_s010 d_idx; as01 \<leftarrow> getitem s d_as01 d_idx;
     s \<leftarrow> setitem s d_s01 d_idx (s010 + dt * as01);
     s020 \<leftarrow> getitem s d_s020 d_idx; as02 \<leftarrow> getitem s d_as02 d_idx;
     s \<leftarrow> setitem s d_s02 d_idx (s020 + dt * as02);
     s110 \<leftarrow> getitem s d_s110 d_idx; as11 \<leftarrow> getitem s d_as11 d_idx;
     s \<leftarrow> setitem s d_s11 d_idx (s110 + dt * as11);
     s120 \<leftarrow> getitem s d_s120 d_idx; as12 \<leftarrow> getitem s d_as12 d_idx;
     s \<leftarrow> setitem s d_s12 d_idx (s120 + dt * as12);
     s220 \<leftarrow> getitem s d_s220 d_idx; as22 \<leftarrow> getitem s d_as22 d_idx;
     s \<leftarrow> setitem s d_s22 d_idx (s220 + dt * as22);
     Some s
   }"

subsection \<open>\<^verbatim>\<open>TransportVelocityStep\<close>\<close>

definition TransportVelocityStep_initialize :: "nat \<Rightarrow> arrays \<Rightarrow> arrays option" where
  "TransportVelocityStep_initialize d_idx s = Some s"

definition TransportVelocityStep_stage1 :: "nat \<Rightarrow> real \<Rightarrow> arrays \<Rightarrow> arrays option" where
  "TransportVelocityStep_stage1 d_idx dt s = do {
     let dtb2 = 0.5 * dt;
     u \<leftarrow> getitem s d_u d_idx; au \<leftarrow> getitem s d_au d_idx;
     s \<leftarrow> setitem s d_u d_idx (u + dtb2 * au);
     v \<leftarrow> getitem s d_v d_idx; av \<leftarrow> getitem s d_av d_idx;
     s \<leftarrow> setitem s d_v d_idx (v + dtb2 * av);
     u \<leftarrow> getitem s d_u d_idx; auhat \<leftarrow> getitem s d_auhat d_idx;
     s \<leftarrow> setitem s d_uhat d_idx (u + dtb2 * auhat);
     v \<leftarrow> getitem s d_v d_idx; avhat \<leftarrow> getitem s d_avhat d_idx;
     s \<leftarrow> setitem s d_vhat d_idx (v + dtb2 * avhat);
     x \<leftarrow> getitem s d_x d_idx; uhat \<leftarrow> getitem s d_uhat d_idx;
     s \<leftarrow> setitem s d_x d_idx (x + dt * uhat);
     y \<leftarrow> getitem s d_y d_idx; vhat \<leftarrow> getitem s d_vhat d_idx;
     s \<leftarrow> setitem s d_y d_idx (y + dt * vhat);
     Some s
   }"

definition TransportVelocityStep_stage2 :: "nat \<Rightarrow> real \<Rightarrow> arrays \<Rightarrow> arrays option" where
  "TransportVelocityStep_stage2 d_idx dt s = do {
     let dtb2 = 0.5 * dt;
     u \<leftarrow> getitem s d_u d_idx; au \<leftarrow> getitem s d_au d_idx;
     s \<leftarrow> setitem s d_u d_idx (u + dtb2 * au);
     v \<leftarrow> getitem s d_v d_idx; av \<leftarrow> getitem s d_av d_idx;
     s \<leftarrow> setitem s d_v d_idx (v + dtb2 * av);
     u \<leftarrow> getitem s d_u d_idx; v \<leftarrow> getitem s d_v d_idx;
     s \<leftarrow> setitem s d_vmag2 d_idx (u * u + v * v);
     Some s
   }"

subsection \<open>\<^verbatim>\<open>AdamiVerletStep\<close>\<close>

definition AdamiVerletStep_initialize :: "nat \<Rightarrow> arrays \<Rightarrow> arrays option" where
  "AdamiVerletStep_initialize d_idx s = Some s"

definition AdamiVerletStep_stage1 :: "nat \<Rightarrow> real \<Rightarrow> arrays \<Rightarrow> arrays option" where
  "AdamiVerletStep_stage1 d_idx dt s = do {
     let dtb2 = 0.5 * dt;
     u \<leftarrow> getitem s d_u d_idx; au \<leftarrow> getitem s d_au d_idx;
     s \<leftarrow> setitem s d_u d_idx (u + dtb2 * au);
     v \<leftarrow> getitem s d_v d_idx; av \<leftarrow> getitem s d_av d_idx;
     s \<leftarrow> setitem s d_v d_idx (v + dtb2 * av);
     x \<leftarrow> getitem s d_x d_idx; u \<leftarrow> getitem s d_u d_idx;
     s \<leftarrow> setitem s d_x d_idx (x + dtb2 * u);
     y \<leftarrow> getitem s d_y d_idx; v \<leftarrow> getitem s d_v d_idx;
     s \<leftarrow> setitem s d_y d_idx (y + dtb2 * v);
     Some s
   }"

definition AdamiVerletStep_stage2 :: "nat \<Rightarrow> real \<Rightarrow> arrays \<Rightarrow> arrays option" where
  "AdamiVerletStep_stage2 d_idx dt s = do {
     let dtb2 = 0.5 * dt;
     u \<leftarrow> getitem s d_u d_idx; au \<leftarrow> getitem s d_au d_idx;
     s \<leftarrow> setitem s d_u d_idx (u + dtb2 * au);
     v \<leftarrow> getitem s d_v d_idx; av \<leftarrow> getitem s d_av d_idx;
     s \<leftarrow> setitem s d_v d_idx (v + dtb2 * av);
     x \<leftarrow> getitem s d_x d_idx; u \<leftarrow> getitem s d_u d_idx;
     s \<leftarrow> setitem s d_x d_idx (x + dtb2 * u);
     y \<leftarrow> getitem s d_y d_idx; v \<leftarrow> getitem s d_v d_idx;
     s \<leftarrow> setitem s d_y d_idx (y + dtb2 * v);
     rho \<leftarrow> getitem s d_rho d_idx; arho \<leftarrow> getitem s d_arho d_idx;
     s \<leftarrow> setitem s d_rho d_idx (rho + dt * arho);
     u \<leftarrow> getitem s d_u d_idx; v \<leftarrow> getitem s d_v d_idx;
     s \<leftarrow> setitem s d_vmag2 d_idx (u * u + v * v);
     Some s
   }"

subsection \<open>\<^verbatim>\<open>GasDFluidStep\<close>\<close>

definition GasDFluidStep_initialize :: "nat \<Rightarrow> arrays \<Rightarrow> arrays option" where
  "GasDFluidStep_initialize d_idx s = do {
     x \<leftarrow> getitem s d_x d_idx;
     s \<leftarrow> setitem s d_x0 d_idx x;
     y \<leftarrow> getitem s d_y d_idx;
     s \<leftarrow> setitem s d_y0 d_idx y;
     z \<leftarrow> getitem s d_z d_idx;
     s \<leftarrow> setitem s d_z0 d_idx z;
     u \<leftarrow> getitem s d_u d_idx;
     s \<leftarrow> setitem s d_u0 d_idx u;
     v \<leftarrow> getitem s d_v d_idx;
     s \<leftarrow> setitem s d_v0 d_idx v;
     w \<leftarrow> getitem s d_w d_idx;
     s \<leftarrow> setitem s d_w0 d_idx w;
     e \<leftarrow> getitem s d_e d_idx;
     s \<leftarrow> setitem s d_e0 d_idx e;
     h \<leftarrow> getitem s d_h d_idx;
     s \<leftarrow> setitem s d_h0 d_idx h;
     s \<leftarrow> setitem s d_converged d_idx 0;
     s \<leftarrow> setitem s d_omega d_idx 1;
     Some s
   }"

definition GasDFluidStep_stage1 :: "nat \<Rightarrow> real \<Rightarrow> arrays \<Rightarrow> arrays option" where
  "GasDFluidStep_stage1 d_idx dt s = do {
     let dtb2 = 0.5 * dt;
     u0 \<leftarrow> getitem s d_u0 d_idx; au \<leftarrow> getitem s d_au d_idx;
     s \<leftarrow> setitem s d_u d_idx (u0 + dtb2 * au);
     v0 \<leftarrow> getitem s d_v0 d_idx; av \<leftarrow> getitem s d_av d_idx;
     s \<leftarrow> setitem s d_v d_idx (v0 + dtb2 * av);
     w0 \<leftarrow> getitem s d_w0 d_idx; aw \<leftarrow> getitem s d_aw d_idx;
     s \<leftarrow> setitem s d_w d_idx (w0 + dtb2 * aw);
     x0 \<leftarrow> getitem s d_x0 d_idx; u \<leftarrow> getitem s d_u d_idx;
     s \<leftarrow> setitem s d_x d_idx (x0 + dtb2 * u);
     y0 \<leftarrow> getitem s d_y0 d_idx; v \<leftarrow> getitem s d_v d_idx;
     s \<leftarrow> setitem s d_y d_idx (y0 + dtb2 * v);
     z0 \<leftarrow> getitem s d_z0 d_idx; w \<leftarrow> getitem s d_w d_idx;
     s \<leftarrow> setitem s d_z d_idx (z0 + dtb2 * w);
     e0 \<leftarrow> getitem s d_e0 d_idx; ae \<leftarrow> getitem s d_ae d_idx;
     s \<leftarrow> setitem s d_e d_idx (e0 + dtb2 * ae);
     Some s
   }"

definition GasDFluidStep_stage2 :: "nat \<Rightarrow> real \<Rightarrow> arrays \<Rightarrow> arrays option" where
  "GasDFluidStep_stage2 d_idx dt s = do {
     u0 \<leftarrow> getitem s d_u0 d_idx; au \<leftarrow> getitem s d_au d_idx;
     s \<leftarrow> setitem s d_u d_idx (u0 + dt * au);
     v0 \<leftarrow> getitem s d_v0 d_idx; av \<leftarrow> getitem s d_av d_idx;
     s \<leftarrow> setitem s d_v d_idx (v0 + dt * av);
     w0 \<leftarrow> getitem s d_w0 d_idx; aw \<leftarrow> getitem s d_aw d_idx;
     s \<leftarrow> setitem s d_w d_idx (w0 + dt * aw);
     x0 \<leftarrow> getitem s d_x0 d_idx; u \<leftarrow> getitem s d_u d_idx;
     s \<leftarrow> setitem s d_x d_idx (x0 + dt * u);
     y0 \<leftarrow> getitem s d_y0 d_idx; v \<leftarrow> getitem s d_v d_idx;
     s \<leftarrow> setitem s d_y d_idx (y0 + dt * v);
     z0 \<leftarrow> getitem s d_z0 d_idx; w \<leftarrow> getitem s d_w d_idx;
     s \<leftarrow> setitem s d_z d_idx (z0 + dt * w);
     e0 \<leftarrow> getitem s d_e0 d_idx; ae \<leftarrow> getitem s d_ae d_idx;
     s \<leftarrow> setitem s d_e d_idx (e0 + dt * ae);
     Some s
   }"

subsection \<open>\<^verbatim>\<open>TwoStageRigidBodyStep\<close>\<close>

definition TwoStageRigidBodyStep_initialize :: "nat \<Rightarrow> arrays \<Rightarrow> arrays option" where
  "TwoStageRigidBodyStep_initialize d_idx s = do {
     u \<leftarrow> getitem s d_u d_idx;
     s \<leftarrow> setitem s d_u0 d_idx u;
     v \<leftarrow> getitem s d_v d_idx;
     s \<leftarrow> setitem s d_v0 d_idx v;
     w \<leftarrow> getitem s d_w d_idx;
     s \<leftarrow> setitem s d_w0 d_idx w;
     x \<leftarrow> getitem s d_x d_idx;
     s \<leftarrow> setitem s d_x0 d_idx x;
     y \<leftarrow> getitem s d_y d_idx;
     s \<leftarrow> setitem s d_y0 d_idx y;
     z \<leftarrow> getitem s d_z d_idx;
     s \<leftarrow> setitem s d_z0 d_idx z;
     Some s
   }"

definition TwoStageRigidBodyStep_stage1 :: "nat \<Rightarrow> real \<Rightarrow> arrays \<Rightarrow> arrays option" where
  "TwoStageRigidBodyStep_stage1 d_idx dt s = do {
     let dtb2 = 0.5 * dt;
     u0 \<leftarrow> getitem s d_u0 d_idx; ax \<leftarrow> getitem s d_ax d_idx;
     s \<leftarrow> setitem s d_u d_idx (u0 + dtb2 * ax);
     v0 \<leftarrow> getitem s d_v0 d_idx; ay \<leftarrow> getitem s d_ay d_idx;
     s \<leftarrow> setitem s d_v d_idx (v0 + dtb2 * ay);
     w0 \<leftarrow> getitem s d_w0 d_idx; az \<leftarrow> getitem s d_az d_idx;
     s \<leftarrow> setitem s d_w d_idx (w0 + dtb2 * az);
     x0 \<leftarrow> getitem s d_x0 d_idx; u \<leftarrow> getitem s d_u d_idx; u0 \<leftarrow> getitem s d_u0 d_idx;
     s \<leftarrow> setitem s d_x d_idx (x0 + dtb2 * 0.5 * (u + u0));
     y0 \<leftarrow> getitem s d_y0 d_idx; v \<leftarrow> getitem s d_v d_idx; v0 \<leftarrow> getitem s d_v0 d_idx;
     s \<leftarrow> setitem s d_y d_idx (y0 + dtb2 * 0.5 * (v + v0));
     z0 \<leftarrow> getitem s d_z0 d_idx; w \<leftarrow> getitem s d_w d_idx; w0 \<leftarrow> getitem s d_w0 d_idx;
     s \<leftarrow> setitem s d_z d_idx (z0 + dtb2 * 0.5 * (w + w0));
     Some s
   }"

definition TwoStageRigidBodyStep_stage2 :: "nat \<Rightarrow> real \<Rightarrow> arrays \<Rightarrow> arrays option" where
  "TwoStageRigidBodyStep_stage2 d_idx dt s = do {
     u0 \<leftarrow> getitem s d_u0 d_idx; ax \<leftarrow> getitem s d_ax d_idx;
     s \<leftarrow> setitem s d_u d_idx (u0 + dt * ax);
     v0 \<leftarrow> getitem s d_v0 d_idx; ay \<leftarrow> getitem s d_ay d_idx;
     s \<leftarrow> setitem s d_v d_idx (v0 + dt * ay);
     w0 \<leftarrow> getitem s d_w0 d_idx; az \<leftarrow> getitem s d_az d_idx;
     s \<leftarrow> setitem s d_w d_idx (w0 + dt * az);
     x0 \<leftarrow> getitem s d_x0 d_idx; u \<leftarrow> getitem s d_u d_idx; u0 \<leftarrow> getitem s d_u0 d_idx;
     s \<leftarrow> setitem s d_x d_idx (x0 + dt * 0.5 * (u + u0));
     y0 \<leftarrow> getitem s d_y0 d_idx; v \<leftarrow> getitem s d_v d_idx; v0 \<leftarrow> getitem s d_v0 d_idx;
     s \<leftarrow> setitem s d_y d_idx (y0 + dt * 0.5 * (v + v0));
     z0 \<leftarrow> getitem s d_z0 d_idx; w \<leftarrow> getitem s d_w d_idx; w0 \<leftarrow> getitem s d_w0 d_idx;
     s \<leftarrow> setitem s d_z d_idx (z0 + dt * 0.5 * (w + w0));
     Some s
   }"

subsection \<open>\<^verbatim>\<open>OneStageRigidBodyStep\<close>\<close>

definition OneStageRigidBodyStep_initialize :: "nat \<Rightarrow> arrays \<Rightarrow> arrays option" where
  "OneStageRigidBodyStep_initialize d_idx s = do {
     u \<leftarrow> getitem s d_u d_idx;
     s \<leftarrow> setitem s d_u0 d_idx u;
     v \<leftarrow> getitem s d_v d_idx;
     s \<leftarrow> setitem s d_v0 d_idx v;
     w \<leftarrow> getitem s d_w d_idx;
     s \<leftarrow> setitem s d_w0 d_idx w;
     x \<leftarrow> getitem s d_x d_idx;
     s \<leftarrow> setitem s d_x0 d_idx x;
     y \<leftarrow> getitem s d_y d_idx;
     s \<leftarrow> setitem s d_y0 d_idx y;
     z \<leftarrow> getitem s d_z d_idx;
     s \<leftarrow> setitem s d_z0 d_idx z;
     Some s
   }"

definition OneStageRigidBodyStep_stage1 :: "nat \<Rightarrow> real \<Rightarrow> arrays \<Rightarrow> arrays option" where
  "OneStageRigidBodyStep_stage1 d_idx dt s = Some s"

definition OneStageRigidBodyStep_stage2 :: "nat \<Rightarrow> real \<Rightarrow> arrays \<Rightarrow> arrays option" where
  "OneStageRigidBodyStep_stage2 d_idx dt s = do {
     u \<leftarrow> getitem s d_u d_idx; ax \<leftarrow> getitem s d_ax d_idx;
     s \<leftarrow> setitem s d_u d_idx (u + dt * ax);
     v \<leftarrow> getitem s d_v d_idx; ay \<leftarrow> getitem s d_ay d_idx;
     s \<leftarrow> setitem s d_v d_idx (v + dt * ay);
     w \<leftarrow> getitem s d_w d_idx; az \<leftarrow> getitem s d_az d_idx;
     s \<leftarrow> setitem s d_w d_idx (w + dt * az);
     x \<leftarrow> getitem s d_x d_idx; u \<leftarrow> getitem s d_u d_idx; u0 \<leftarrow> getitem s d_u0 d_idx;
     s \<leftarrow> setitem s d_x d_idx (x + (dt * 0.5 * (u + u0)));
     y \<leftarrow> getitem s d_y d_idx; v \<leftarrow> getitem s d_v d_idx; v0 \<leftarrow> getitem s d_v0 d_idx;
     s \<leftarrow> setitem s d_y d_idx (y + (dt * 0.5 * (v + v0)));
     z \<leftarrow> getitem s d_z d_idx; w \<leftarrow> getitem s d_w d_idx; w0 \<leftarrow> getitem s d_w0 d_idx;
     s \<leftarrow> setitem s d_z d_idx (z + (dt * 0.5 * (w + w0)));
     Some s
   }"

subsection \<open>\<^verbatim>\<open>VerletSymplecticWCSPHStep\<close>\<close>

definition VerletSymplecticWCSPHStep_stage1 :: "nat \<Rightarrow> real \<Rightarrow> arrays \<Rightarrow> arrays option" where
  "VerletSymplecticWCSPHStep_stage1 d_idx dt s = do {
     let dtb2 = 0.5 * dt;
     x \<leftarrow> getitem s d_x d_idx; u \<leftarrow> getitem s d_u d_idx;
     s \<leftarrow> setitem s d_x d_idx (x + dtb2 * u);
     y \<leftarrow> getitem s d_y d_idx; v \<leftarrow> getitem s d_v d_idx;
     s \<leftarrow> setitem s d_y d_idx (y + dtb2 * v);
     z \<leftarrow> getitem s d_z d_idx; w \<leftarrow> getitem s d_w d_idx;
     s \<leftarrow> setitem s d_z d_idx (z + dtb2 * w);
     Some s
   }"

definition VerletSymplecticWCSPHStep_stage2 :: "nat \<Rightarrow> real \<Rightarrow> arrays \<Rightarrow> arrays option" where
  "VerletSymplecticWCSPHStep_stage2 d_idx dt s = do {
     let dtb2 = 0.5 * dt;
     u \<leftarrow> getitem s d_u d_idx; au \<leftarrow> getitem s d_au d_idx;
     s \<leftarrow> setitem s d_u d_idx (u + dt * au);
     v \<leftarrow> getitem s d_v d_idx; av \<leftarrow> getitem s d_av d_idx;
     s \<leftarrow> setitem s d_v d_idx (v + dt * av);
     w \<leftarrow> getitem s d_w d_idx; aw \<leftarrow> getitem s d_aw d_idx;
     s \<leftarrow> setitem s d_w d_idx (w + dt * aw);
     x \<leftarrow> getitem s d_x d_idx; ax \<leftarrow> getitem s d_ax d_idx;
     s \<leftarrow> setitem s d_x d_idx (x + dtb2 * ax);
     y \<leftarrow> getitem s d_y d_idx; ay \<leftarrow> getitem s d_ay d_idx;
     s \<leftarrow> setitem s d_y d_idx (y + dtb2 * ay);
     z \<leftarrow> getitem s d_z d_idx; az \<leftarrow> getitem s d_az d_idx;
     s \<leftarrow> setitem s d_z d_idx (z + dtb2 * az);
     Some s
   }"

section \<open>Schemes and their calls\<close>

text \<open>
  The ten concrete classes. A class that does not define a method inherits it from
  \<^verbatim>\<open>IntegratorStep\<close>: \<^verbatim>\<open>EulerStep\<close> its \<^verbatim>\<open>stage2\<close>, \<^verbatim>\<open>VerletSymplecticWCSPHStep\<close> its
  \<^verbatim>\<open>initialize\<close>. Only \<^verbatim>\<open>WCSPHTVDRK3Step\<close> has a \<^verbatim>\<open>stage3\<close>.
\<close>

datatype scheme =
    EulerStep | WCSPHStep | WCSPHTVDRK3Step | SolidMechStep | TransportVelocityStep
  | AdamiVerletStep | GasDFluidStep | TwoStageRigidBodyStep | OneStageRigidBodyStep
  | VerletSymplecticWCSPHStep

fun initialize :: "scheme \<Rightarrow> nat \<Rightarrow> arrays \<Rightarrow> arrays option" where
  "initialize EulerStep = EulerStep_initialize"
| "initialize WCSPHStep = WCSPHStep_initialize"
| "initialize WCSPHTVDRK3Step = WCSPHTVDRK3Step_initialize"
| "initialize SolidMechStep = SolidMechStep_initialize"
| "initialize TransportVelocityStep = TransportVelocityStep_initialize"
| "initialize AdamiVerletStep = AdamiVerletStep_initialize"
| "initialize GasDFluidStep = GasDFluidStep_initialize"
| "initialize TwoStageRigidBodyStep = TwoStageRigidBodyStep_initialize"
| "initialize OneStageRigidBodyStep = OneStageRigidBodyStep_initialize"
| "initialize VerletSymplecticWCSPHStep = IntegratorStep_initialize"

fun stages :: "scheme \<Rightarrow> (nat \<Rightarrow> real \<Rightarrow> arrays \<Rightarrow> arrays option) list" where
  "stages EulerStep = [EulerStep_stage1, IntegratorStep_stage2]"
| "stages WCSPHStep = [WCSPHStep_stage1, WCSPHStep_stage2]"
| "stages WCSPHTVDRK3Step =
     [WCSPHTVDRK3Step_stage1, WCSPHTVDRK3Step_stage2, WCSPHTVDRK3Step_stage3]"
| "stages SolidMechStep = [SolidMechStep_stage1, SolidMechStep_stage2]"
| "stages TransportVelocityStep = [TransportVelocityStep_stage1, TransportVelocityStep_stage2]"
| "stages AdamiVerletStep = [AdamiVerletStep_stage1, AdamiVerletStep_stage2]"
| "stages GasDFluidStep = [GasDFluidStep_stage1, GasDFluidStep_stage2]"
| "stages TwoStageRigidBodyStep = [TwoStageRigidBodyStep_stage1, TwoStageRigidBodyStep_stage2]"
| "stages OneStageRigidBodyStep = [OneStageRigidBodyStep_stage1, OneStageRigidBodyStep_stage2]"
| "stages VerletSymplecticWCSPHStep =
     [VerletSymplecticWCSPHStep_stage1, VerletSymplecticWCSPHStep_stage2]"



text \<open>
  The operations of a scheme at a given \<^verbatim>\<open>dt\<close>, as functions of the particle index:
  \<^verbatim>\<open>initialize\<close>, marked \<open>False\<close>, and every stage, marked \<open>True\<close>.
\<close>

definition operations :: "scheme \<Rightarrow> real \<Rightarrow> (bool \<times> (nat \<Rightarrow> arrays \<Rightarrow> arrays option)) list" where
  "operations sch dt =
     (False, initialize sch) # map (\<lambda>f. (True, \<lambda>d_idx. f d_idx dt)) (stages sch)"

text \<open>
  The predictor arrays of a scheme, each with the current array that \<^verbatim>\<open>initialize\<close>
  copies into it (the assignments \<^verbatim>\<open>d_x0[d_idx] = d_x[d_idx]\<close> of the source).
\<close>

definition wcsph_predictors :: "(property \<times> property) list" where
  "wcsph_predictors =
     [(d_x0, d_x), (d_y0, d_y), (d_z0, d_z),
      (d_u0, d_u), (d_v0, d_v), (d_w0, d_w),
      (d_rho0, d_rho)]"

definition rigid_body_predictors :: "(property \<times> property) list" where
  "rigid_body_predictors =
     [(d_u0, d_u), (d_v0, d_v), (d_w0, d_w),
      (d_x0, d_x), (d_y0, d_y), (d_z0, d_z)]"

fun predictors :: "scheme \<Rightarrow> (property \<times> property) list" where
  "predictors WCSPHStep = wcsph_predictors"
| "predictors WCSPHTVDRK3Step = wcsph_predictors"
| "predictors SolidMechStep =
     wcsph_predictors @
     [(d_e0, d_e),
      (d_s000, d_s00), (d_s010, d_s01), (d_s020, d_s02),
      (d_s110, d_s11), (d_s120, d_s12), (d_s220, d_s22)]"
| "predictors GasDFluidStep =
     [(d_x0, d_x), (d_y0, d_y), (d_z0, d_z),
      (d_u0, d_u), (d_v0, d_v), (d_w0, d_w),
      (d_e0, d_e), (d_h0, d_h)]"
| "predictors TwoStageRigidBodyStep = rigid_body_predictors"
| "predictors OneStageRigidBodyStep = rigid_body_predictors"
| "predictors sch = []"

text \<open>
  The arrays that the methods assign to: \<^verbatim>\<open>initialize\<close> to the predictor arrays (and
  \<^verbatim>\<open>GasDFluidStep.initialize\<close> to \<^verbatim>\<open>d_converged\<close> and \<^verbatim>\<open>d_omega\<close>), the stages to the current
  properties listed here for each class.
\<close>

fun initialize_targets :: "scheme \<Rightarrow> property list" where
  "initialize_targets GasDFluidStep =
     map fst (predictors GasDFluidStep) @ [d_converged, d_omega]"
| "initialize_targets sch = map fst (predictors sch)"

fun stage_targets :: "scheme \<Rightarrow> property list" where
  "stage_targets SolidMechStep =
     [d_u, d_v, d_w, d_x, d_y, d_z, d_rho, d_e, d_s00, d_s01, d_s02, d_s11, d_s12, d_s22]"
| "stage_targets TransportVelocityStep = [d_u, d_v, d_uhat, d_vhat, d_x, d_y, d_vmag2]"
| "stage_targets AdamiVerletStep = [d_u, d_v, d_x, d_y, d_rho, d_vmag2]"
| "stage_targets GasDFluidStep = [d_u, d_v, d_w, d_x, d_y, d_z, d_e]"
| "stage_targets TwoStageRigidBodyStep = [d_u, d_v, d_w, d_x, d_y, d_z]"
| "stage_targets OneStageRigidBodyStep = [d_u, d_v, d_w, d_x, d_y, d_z]"
| "stage_targets VerletSymplecticWCSPHStep = [d_x, d_y, d_z, d_u, d_v, d_w]"
| "stage_targets sch = [d_u, d_v, d_w, d_x, d_y, d_z, d_rho]"


text \<open>
  Modelled from the spec: the acceleration evaluator, which is not among the sources. Before
  a stage it fills the acceleration and rate arrays that the stages read, and leaves every
  other array alone. The new contents are the argument \<open>a\<close>.
\<close>

definition acceleration_names :: "property list" where
  "acceleration_names =
     [d_au, d_av, d_aw, d_ax, d_ay, d_az, d_arho, d_ae,
      d_as00, d_as01, d_as02, d_as11, d_as12, d_as22,
      d_auhat, d_avhat]"

definition set_accelerations :: "arrays \<Rightarrow> arrays \<Rightarrow> arrays" where
  "set_accelerations a s = (\<lambda>p. if p \<in> set acceleration_names then a p else s p)"

text \<open>
  A sequence of stage calls after \<^verbatim>\<open>initialize\<close>: each call names the accelerations the
  evaluator left, the number of the stage (0 for \<^verbatim>\<open>stage1\<close>), the particle and \<^verbatim>\<open>dt\<close>. A stage
  the class does not have cannot be called.
\<close>

fun stage_calls :: "scheme \<Rightarrow> (arrays \<times> nat \<times> nat \<times> real) list \<Rightarrow> arrays \<Rightarrow> arrays option" where
  "stage_calls sch [] s = Some s"
| "stage_calls sch ((a, k, d_idx, dt) # cs) s =
     (if k < length (stages sch)
      then (stages sch ! k) d_idx dt (set_accelerations a s) \<bind> stage_calls sch cs
      else None)"

section \<open>Particles of a group\<close>

text \<open>
  An index is valid when every array has an element there; a group of \<open>n\<close> particles has
  arrays of length \<open>n\<close>. \<open>particle s i\<close> is the particle at index \<open>i\<close>, its value for each
  property, and \<open>put s i r\<close> stores the values \<open>r\<close> at index \<open>i\<close> of every array.
\<close>

definition valid_index :: "arrays \<Rightarrow> nat \<Rightarrow> bool" where
  "valid_index s i \<longleftrightarrow> (\<forall>p. i < length (s p))"

definition particle_group :: "nat \<Rightarrow> arrays \<Rightarrow> bool" where
  "particle_group n s \<longleftrightarrow> (\<forall>p. length (s p) = n)"

definition particle :: "arrays \<Rightarrow> nat \<Rightarrow> property \<Rightarrow> real" where
  "particle s i = (\<lambda>p. s p ! i)"

definition put :: "arrays \<Rightarrow> nat \<Rightarrow> (property \<Rightarrow> real) \<Rightarrow> arrays" where
  "put s i r = (\<lambda>p. (s p)[i := r p])"

text \<open>
  An operation acts on one particle through \<open>k\<close> when, at every valid index, it stores at
  that index what \<open>k\<close> makes of the values found there, and touches nothing else.
\<close>

definition acts_on_particle ::
  "(nat \<Rightarrow> arrays \<Rightarrow> arrays option) \<Rightarrow> ((property \<Rightarrow> real) \<Rightarrow> property \<Rightarrow> real) \<Rightarrow> bool" where
  "acts_on_particle f k \<longleftrightarrow>
     (\<forall>s i r. valid_index s i \<longrightarrow> f i (put s i r) = Some (put s i (k r)))"

text \<open>
  An operation writes only the properties \<open>ws\<close> when it acts on one particle and gives every
  other property of the particle the value it had.
\<close>

definition writes_only :: "(nat \<Rightarrow> arrays \<Rightarrow> arrays option) \<Rightarrow> property list \<Rightarrow> bool" where
  "writes_only f ws \<longleftrightarrow>
     (\<exists>k. acts_on_particle f k \<and> (\<forall>r p. p \<notin> set ws \<longrightarrow> k r p = r p))"

text \<open>A group of two particles for the examples.\<close>

definition example_group :: arrays where
  "example_group =
     (\<lambda>p. [1, 2])(d_au := [3, 5], d_ax := [4, 6], d_uhat := [9, 8],
       d_u0 := [7, 7], d_x0 := [10, 10])"

section \<open>Saving and loading particle arrays\<close>

text \<open>
  Modelled from the spec: the particle array class and the functions \<^verbatim>\<open>dump\<close> and \<^verbatim>\<open>load\<close> of
  \<^verbatim>\<open>pysph.solver.utils\<close>, which are not among the sources (their test
  \<^verbatim>\<open>test_solver_utils.py\<close> is). A group has a name, its properties, its constants and the
  ordered list of the names of its output properties. A snapshot holds the solver's data
  and, under the name of each group, the properties selected for output, the constants
  and the list of output names. Loading rebuilds a group from each entry.
\<close>

record particle_array =
  array_name :: string
  properties :: "(string \<times> real list) list"
  constants :: "(string \<times> real list) list"
  output_property_arrays :: "string list"

definition set_output_arrays :: "particle_array \<Rightarrow> string list \<Rightarrow> particle_array" where
  "set_output_arrays pa names = pa\<lparr>output_property_arrays := names\<rparr>"

record group_dump =
  dumped_properties :: "(string \<times> real list) list"
  dumped_constants :: "(string \<times> real list) list"
  dumped_output_arrays :: "string list"

record snapshot =
  snapshot_solver_data :: "(string \<times> real) list"
  snapshot_arrays :: "(string \<times> group_dump) list"

definition dump_group :: "particle_array \<Rightarrow> group_dump" where
  "dump_group pa =
     \<lparr>dumped_properties =
        filter (\<lambda>(n, xs). n \<in> set (output_property_arrays pa)) (properties pa),
      dumped_constants = constants pa,
      dumped_output_arrays = output_property_arrays pa\<rparr>"

definition dump :: "particle_array list \<Rightarrow> (string \<times> real) list \<Rightarrow> snapshot" where
  "dump particles solver_data =
     \<lparr>snapshot_solver_data = solver_data,
      snapshot_arrays = map (\<lambda>pa. (array_name pa, dump_group pa)) particles\<rparr>"

definition load_group :: "string \<Rightarrow> group_dump \<Rightarrow> particle_array" where
  "load_group n g =
     \<lparr>array_name = n, properties = dumped_properties g, constants = dumped_constants g,
      output_property_arrays = dumped_output_arrays g\<rparr>"

record loaded =
  solver_data :: "string \<rightharpoonup> real"
  loaded_arrays :: "string \<rightharpoonup> particle_array"

definition load :: "snapshot \<Rightarrow> loaded" where
  "load snap =
     \<lparr>solver_data = map_of (snapshot_solver_data snap),
      loaded_arrays = map_of (map (\<lambda>(n, g). (n, load_group n g)) (snapshot_arrays snap))\<rparr>"

section \<open>Reading and writing one particle\<close>

lemma getitem_put: "i < length (s p) \<Longrightarrow> getitem (put s i r) p i = Some (r p)"
  by (simp add: getitem_def put_def)

lemma setitem_put:
  "i < length (s p) \<Longrightarrow> setitem (put s i r) p i v = Some (put s i (r(p := v)))"
  by (auto simp add: setitem_def put_def fun_eq_iff)

lemma getitem_other: "p \<noteq> q \<Longrightarrow> getitem (s(q := a)) p i = getitem s p i"
  by (simp add: getitem_def)

lemma setitem_other:
  "p \<noteq> q \<Longrightarrow> setitem (s(q := a)) p i v = map_option (\<lambda>s'. s'(q := a)) (setitem s p i v)"
  by (auto simp add: setitem_def fun_eq_iff)

lemma put_particle: "put s i (particle s i) = s"
  by (simp add: put_def particle_def)

lemma length_put: "length (put s i r p) = length (s p)"
  by (simp add: put_def)

lemma valid_index_put: "valid_index (put s i r) j \<longleftrightarrow> valid_index s j"
  by (simp add: valid_index_def length_put)

lemma nth_put_same: "i < length (s p) \<Longrightarrow> put s i r p ! i = r p"
  by (simp add: put_def)

lemma nth_put_other: "j \<noteq> i \<Longrightarrow> put s i r p ! j = s p ! j"
  by (simp add: put_def)

lemma put_unchanged: "r p = s p ! i \<Longrightarrow> put s i r p = s p"
  by (simp add: put_def)

lemma particle_put_same: "valid_index s i \<Longrightarrow> particle (put s i r) i = r"
  by (simp add: particle_def put_def valid_index_def fun_eq_iff)

lemma particle_put_other: "j \<noteq> i \<Longrightarrow> particle (put s i r) j = particle s j"
  by (simp add: particle_def put_def fun_eq_iff)

lemma put_put_swap: "i \<noteq> j \<Longrightarrow> put (put s i a) j b = put (put s j b) i a"
  by (simp add: put_def fun_eq_iff list_update_swap)

lemma particle_group_valid: "particle_group n s \<Longrightarrow> i < n \<Longrightarrow> valid_index s i"
  by (simp add: particle_group_def valid_index_def)

text \<open>
  A property of the result of a call follows from the same property of what the call
  stores at the particle.
\<close>

lemma via_put:
  assumes "F (put s i (particle s i)) = Some (put s i r')" and "Q (put s i r')"
  shows "\<exists>s'. F s = Some s' \<and> Q s'"
  using assms by (simp add: put_particle)

section \<open>What each method stores at the particle\<close>

lemma EulerStep_stage1_put:
  assumes "valid_index s d_idx"
  shows "EulerStep_stage1 d_idx dt (put s d_idx r) = Some (put s d_idx (r(
       d_u := r d_u + dt * r d_au,
       d_v := r d_v + dt * r d_av,
       d_w := r d_w + dt * r d_aw,
       d_x := r d_x + dt * (r d_u + dt * r d_au),
       d_y := r d_y + dt * (r d_v + dt * r d_av),
       d_z := r d_z + dt * (r d_w + dt * r d_aw),
       d_rho := r d_rho + dt * r d_arho)))"
  using assms by (simp add: EulerStep_stage1_def valid_index_def getitem_put setitem_put)

lemma WCSPHStep_initialize_put:
  assumes "valid_index s d_idx"
  shows "WCSPHStep_initialize d_idx (put s d_idx r) = Some (put s d_idx (r(
       d_x0 := r d_x,
       d_y0 := r d_y,
       d_z0 := r d_z,
       d_u0 := r d_u,
       d_v0 := r d_v,
       d_w0 := r d_w,
       d_rho0 := r d_rho)))"
  using assms by (simp add: WCSPHStep_initialize_def valid_index_def getitem_put setitem_put)

lemma WCSPHStep_stage1_put:
  assumes "valid_index s d_idx"
  shows "WCSPHStep_stage1 d_idx dt (put s d_idx r) = Some (put s d_idx (r(
       d_u := r d_u0 + (0.5 * dt) * r d_au,
       d_v := r d_v0 + (0.5 * dt) * r d_av,
       d_w := r d_w0 + (0.5 * dt) * r d_aw,
       d_x := r d_x0 + (0.5 * dt) * r d_ax,
       d_y := r d_y0 + (0.5 * dt) * r d_ay,
       d_z := r d_z0 + (0.5 * dt) * r d_az,
       d_rho := r d_rho0 + (0.5 * dt) * r d_arho)))"
  using assms by (simp add: WCSPHStep_stage1_def valid_index_def getitem_put setitem_put)

lemma WCSPHStep_stage2_put:
  assumes "valid_index s d_idx"
  shows "WCSPHStep_stage2 d_idx dt (put s d_idx r) = Some (put s d_idx (r(
       d_u := r d_u0 + dt * r d_au,
       d_v := r d_v0 + dt * r d_av,
       d_w := r d_w0 + dt * r d_aw,
       d_x := r d_x0 + dt * r d_ax,
       d_y := r d_y0 + dt * r d_ay,
       d_z := r d_z0 + dt * r d_az,
       d_rho := r d_rho0 + dt * r d_arho)))"
  using assms by (simp add: WCSPHStep_stage2_def valid_index_def getitem_put setitem_put)

lemma WCSPHTVDRK3Step_initialize_put:
  assumes "valid_index s d_idx"
  shows "WCSPHTVDRK3Step_initialize d_idx (put s d_idx r) = Some (put s d_idx (r(
       d_x0 := r d_x,
       d_y0 := r d_y,
       d_z0 := r d_z,
       d_u0 := r d_u,
       d_v0 := r d_v,
       d_w0 := r d_w,
       d_rho0 := r d_rho)))"
  using assms by (simp add: WCSPHTVDRK3Step_initialize_def valid_index_def getitem_put setitem_put)

lemma WCSPHTVDRK3Step_stage1_put:
  assumes "valid_index s d_idx"
  shows "WCSPHTVDRK3Step_stage1 d_idx dt (put s d_idx r) = Some (put s d_idx (r(
       d_u := r d_u0 + dt * r d_au,
       d_v := r d_v0 + dt * r d_av,
       d_w := r d_w0 + dt * r d_aw,
       d_x := r d_x0 + dt * r d_ax,
       d_y := r d_y0 + dt * r d_ay,
       d_z := r d_z0 + dt * r d_az,
       d_rho := r d_rho0 + dt * r d_arho)))"
  using assms by (simp add: WCSPHTVDRK3Step_stage1_def valid_index_def getitem_put setitem_put)

lemma WCSPHTVDRK3Step_stage2_put:
  assumes "valid_index s d_idx"
  shows "WCSPHTVDRK3Step_stage2 d_idx dt (put s d_idx r) = Some (put s d_idx (r(
       d_u := 0.75 * r d_u0 + 0.25 * (r d_u + dt * r d_au),
       d_v := 0.75 * r d_v0 + 0.25 * (r d_v + dt * r d_av),
       d_w := 0.75 * r d_w0 + 0.25 * (r d_w + dt * r d_aw),
       d_x := 0.75 * r d_x0 + 0.25 * (r d_x + dt * r d_ax),
       d_y := 0.75 * r d_y0 + 0.25 * (r d_y + dt * r d_ay),
       d_z := 0.75 * r d_z0 + 0.25 * (r d_z + dt * r d_az),
       d_rho := 0.75 * r d_rho0 + 0.25 * (r d_rho + dt * r d_arho))))"
  using assms by (simp add: WCSPHTVDRK3Step_stage2_def valid_index_def getitem_put setitem_put)

lemma WCSPHTVDRK3Step_stage3_put:
  assumes "valid_index s d_idx"
  shows "WCSPHTVDRK3Step_stage3 d_idx dt (put s d_idx r) = Some (put s d_idx (r(
       d_u := (1 / 3) * r d_u0 + (2 / 3) * (r d_u + dt * r d_au),
       d_v := (1 / 3) * r d_v0 + (2 / 3) * (r d_v + dt * r d_av),
       d_w := (1 / 3) * r d_w0 + (2 / 3) * (r d_w + dt * r d_aw),
       d_x := (1 / 3) * r d_x0 + (2 / 3) * (r d_x + dt * r d_ax),
       d_y := (1 / 3) * r d_y0 + (2 / 3) * (r d_y + dt * r d_ay),
       d_z := (1 / 3) * r d_z0 + (2 / 3) * (r d_z + dt * r d_az),
       d_rho := (1 / 3) * r d_rho0 + (2 / 3) * (r d_rho + dt * r d_arho))))"
  using assms by (simp add: WCSPHTVDRK3Step_stage3_def valid_index_def getitem_put setitem_put)

lemma SolidMechStep_initialize_put:
  assumes "valid_index s d_idx"
  shows "SolidMechStep_initialize d_idx (put s d_idx r) = Some (put s d_idx (r(
       d_x0 := r d_x,
       d_y0 := r d_y,
       d_z0 := r d_z,
       d_u0 := r d_u,
       d_v0 := r d_v,
       d_w0 := r d_w,
       d_rho0 := r d_rho,
       d_e0 := r d_e,
       d_s000 := r d_s00,
       d_s010 := r d_s01,
       d_s020 := r d_s02,
       d_s110 := r d_s11,
       d_s120 := r d_s12,
       d_s220 := r d_s22)))"
  using assms by (simp add: SolidMechStep_initialize_def valid_index_def getitem_put setitem_put)

lemma SolidMechStep_stage1_put:
  assumes "valid_index s d_idx"
  shows "SolidMechStep_stage1 d_idx dt (put s d_idx r) = Some (put s d_idx (r(
       d_u := r d_u0 + (0.5 * dt) * r d_au,
       d_v := r d_v0 + (0.5 * dt) * r d_av,
       d_w := r d_w0 + (0.5 * dt) * r d_aw,
       d_x := r d_x0 + (0.5 * dt) * r d_ax,
       d_y := r d_y0 + (0.5 * dt) * r d_ay,
       d_z := r d_z0 + (0.5 * dt) * r d_az,
       d_rho := r d_rho0 + (0.5 * dt) * r d_arho,
       d_e := r d_e0 + (0.5 * dt) * r d_ae,
       d_s00 := r d_s000 + (0.5 * dt) * r d_as00,
       d_s01 := r d_s010 + (0.5 * dt) * r d_as01,
       d_s02 := r d_s020 + (0.5 * dt) * r d_as02,
       d_s11 := r d_s110 + (0.5 * dt) * r d_as11,
       d_s12 := r d_s120 + (0.5 * dt) * r d_as12,
       d_s22 := r d_s220 + (0.5 * dt) * r d_as22)))"
  using assms by (simp add: SolidMechStep_stage1_def valid_index_def getitem_put setitem_put)

lemma SolidMechStep_stage2_put:
  assumes "valid_index s d_idx"
  shows "SolidMechStep_stage2 d_idx dt (put s d_idx r) = Some (put s d_idx (r(
       d_u := r d_u0 + dt * r d_au,
       d_v := r d_v0 + dt * r d_av,
       d_w := r d_w0 + dt * r d_aw,
       d_x := r d_x0 + dt * r d_ax,
       d_y := r d_y0 + dt * r d_ay,
       d_z := r d_z0 + dt * r d_az,
       d_rho := r d_rho0 + dt * r d_arho,
       d_e := r d_e0 + dt * r d_ae,
       d_s00 := r d_s000 + dt * r d_as00,
       d_s01 := r d_s010 + dt * r d_as01,
       d_s02 := r d_s020 + dt * r d_as02,
       d_s11 := r d_s110 + dt * r d_as11,
       d_s12 := r d_s120 + dt * r d_as12,
       d_s22 := r d_s220 + dt * r d_as22)))"
  using assms by (simp add: SolidMechStep_stage2_def valid_index_def getitem_put setitem_put)

lemma TransportVelocityStep_stage1_put:
  assumes "valid_index s d_idx"
  shows "TransportVelocityStep_stage1 d_idx dt (put s d_idx r) = Some (put s d_idx (r(
       d_u := r d_u + (0.5 * dt) * r d_au,
       d_v := r d_v + (0.5 * dt) * r d_av,
       d_uhat := (r d_u + (0.5 * dt) * r d_au) + (0.5 * dt) * r d_auhat,
       d_vhat := (r d_v + (0.5 * dt) * r d_av) + (0.5 * dt) * r d_avhat,
       d_x := r d_x + dt * ((r d_u + (0.5 * dt) * r d_au) + (0.5 * dt) * r d_auhat),
       d_y := r d_y + dt * ((r d_v + (0.5 * dt) * r d_av) + (0.5 * dt) * r d_avhat))))"
  using assms by (simp add: TransportVelocityStep_stage1_def valid_index_def getitem_put setitem_put)

lemma TransportVelocityStep_stage2_put:
  assumes "valid_index s d_idx"
  shows "TransportVelocityStep_stage2 d_idx dt (put s d_idx r) = Some (put s d_idx (r(
       d_u := r d_u + (0.5 * dt) * r d_au,
       d_v := r d_v + (0.5 * dt) * r d_av,
       d_vmag2 := (r d_u + (0.5 * dt) * r d_au) * (r d_u + (0.5 * dt) * r d_au) + (r d_v + (0.5 * dt) * r d_av) * (r d_v + (0.5 * dt) * r d_av))))"
  using assms by (simp add: TransportVelocityStep_stage2_def valid_index_def getitem_put setitem_put)

lemma AdamiVerletStep_stage1_put:
  assumes "valid_index s d_idx"
  shows "AdamiVerletStep_stage1 d_idx dt (put s d_idx r) = Some (put s d_idx (r(
       d_u := r d_u + (0.5 * dt) * r d_au,
       d_v := r d_v + (0.5 * dt) * r d_av,
       d_x := r d_x + (0.5 * dt) * (r d_u + (0.5 * dt) * r d_au),
       d_y := r d_y + (0.5 * dt) * (r d_v + (0.5 * dt) * r d_av))))"
  using assms by (simp add: AdamiVerletStep_stage1_def valid_index_def getitem_put setitem_put)

lemma AdamiVerletStep_stage2_put:
  assumes "valid_index s d_idx"
  shows "AdamiVerletStep_stage2 d_idx dt (put s d_idx r) = Some (put s d_idx (r(
       d_u := r d_u + (0.5 * dt) * r d_au,
       d_v := r d_v + (0.5 * dt) * r d_av,
       d_x := r d_x + (0.5 * dt) * (r d_u + (0.5 * dt) * r d_au),
       d_y := r d_y + (0.5 * dt) * (r d_v + (0.5 * dt) * r d_av),
       d_rho := r d_rho + dt * r d_arho,
       d_vmag2 := (r d_u + (0.5 * dt) * r d_au) * (r d_u + (0.5 * dt) * r d_au) + (r d_v + (0.5 * dt) * r d_av) * (r d_v + (0.5 * dt) * r d_av))))"
  using assms by (simp add: AdamiVerletStep_stage2_def valid_index_def getitem_put setitem_put)

lemma GasDFluidStep_initialize_put:
  assumes "valid_index s d_idx"
  shows "GasDFluidStep_initialize d_idx (put s d_idx r) = Some (put s d_idx (r(
       d_x0 := r d_x,
       d_y0 := r d_y,
       d_z0 := r d_z,
       d_u0 := r d_u,
       d_v0 := r d_v,
       d_w0 := r d_w,
       d_e0 := r d_e,
       d_h0 := r d_h,
       d_converged := 0,
       d_omega := 1)))"
  using assms by (simp add: GasDFluidStep_initialize_def valid_index_def getitem_put setitem_put)

lemma GasDFluidStep_stage1_put:
  assumes "valid_index s d_idx"
  shows "GasDFluidStep_stage1 d_idx dt (put s d_idx r) = Some (put s d_idx (r(
       d_u := r d_u0 + (0.5 * dt) * r d_au,
       d_v := r d_v0 + (0.5 * dt) * r d_av,
       d_w := r d_w0 + (0.5 * dt) * r d_aw,
       d_x := r d_x0 + (0.5 * dt) * (r d_u0 + (0.5 * dt) * r d_au),
       d_y := r d_y0 + (0.5 * dt) * (r d_v0 + (0.5 * dt) * r d_av),
       d_z := r d_z0 + (0.5 * dt) * (r d_w0 + (0.5 * dt) * r d_aw),
       d_e := r d_e0 + (0.5 * dt) * r d_ae)))"
  using assms by (simp add: GasDFluidStep_stage1_def valid_index_def getitem_put setitem_put)

lemma GasDFluidStep_stage2_put:
  assumes "valid_index s d_idx"
  shows "GasDFluidStep_stage2 d_idx dt (put s d_idx r) = Some (put s d_idx (r(
       d_u := r d_u0 + dt * r d_au,
       d_v := r d_v0 + dt * r d_av,
       d_w := r d_w0 + dt * r d_aw,
       d_x := r d_x0 + dt * (r d_u0 + dt * r d_au),
       d_y := r d_y0 + dt * (r d_v0 + dt * r d_av),
       d_z := r d_z0 + dt * (r d_w0 + dt * r d_aw),
       d_e := r d_e0 + dt * r d_ae)))"
  using assms by (simp add: GasDFluidStep_stage2_def valid_index_def getitem_put setitem_put)

lemma TwoStageRigidBodyStep_initialize_put:
  assumes "valid_index s d_idx"
  shows "TwoStageRigidBodyStep_initialize d_idx (put s d_idx r) = Some (put s d_idx (r(
       d_u0 := r d_u,
       d_v0 := r d_v,
       d_w0 := r d_w,
       d_x0 := r d_x,
       d_y0 := r d_y,
       d_z0 := r d_z)))"
  using assms by (simp add: TwoStageRigidBodyStep_initialize_def valid_index_def getitem_put setitem_put)

lemma TwoStageRigidBodyStep_stage1_put:
  assumes "valid_index s d_idx"
  shows "TwoStageRigidBodyStep_stage1 d_idx dt (put s d_idx r) = Some (put s d_idx (r(
       d_u := r d_u0 + (0.5 * dt) * r d_ax,
       d_v := r d_v0 + (0.5 * dt) * r d_ay,
       d_w := r d_w0 + (0.5 * dt) * r d_az,
       d_x := r d_x0 + (0.5 * dt) * 0.5 * ((r d_u0 + (0.5 * dt) * r d_ax) + r d_u0),
       d_y := r d_y0 + (0.5 * dt) * 0.5 * ((r d_v0 + (0.5 * dt) * r d_ay) + r d_v0),
       d_z := r d_z0 + (0.5 * dt) * 0.5 * ((r d_w0 + (0.5 * dt) * r d_az) + r d_w0))))"
  using assms by (simp add: TwoStageRigidBodyStep_stage1_def valid_index_def getitem_put setitem_put)

lemma TwoStageRigidBodyStep_stage2_put:
  assumes "valid_index s d_idx"
  shows "TwoStageRigidBodyStep_stage2 d_idx dt (put s d_idx r) = Some (put s d_idx (r(
       d_u := r d_u0 + dt * r d_ax,
       d_v := r d_v0 + dt * r d_ay,
       d_w := r d_w0 + dt * r d_az,
       d_x := r d_x0 + dt * 0.5 * ((r d_u0 + dt * r d_ax) + r d_u0),
       d_y := r d_y0 + dt * 0.5 * ((r d_v0 + dt * r d_ay) + r d_v0),
       d_z := r d_z0 + dt * 0.5 * ((r d_w0 + dt * r d_az) + r d_w0))))"
  using assms by (simp add: TwoStageRigidBodyStep_stage2_def valid_index_def getitem_put setitem_put)

lemma OneStageRigidBodyStep_initialize_put:
  assumes "valid_index s d_idx"
  shows "OneStageRigidBodyStep_initialize d_idx (put s d_idx r) = Some (put s d_idx (r(
       d_u0 := r d_u,
       d_v0 := r d_v,
       d_w0 := r d_w,
       d_x0 := r d_x,
       d_y0 := r d_y,
       d_z0 := r d_z)))"
  using assms by (simp add: OneStageRigidBodyStep_initialize_def valid_index_def getitem_put setitem_put)

lemma OneStageRigidBodyStep_stage2_put:
  assumes "valid_index s d_idx"
  shows "OneStageRigidBodyStep_stage2 d_idx dt (put s d_idx r) = Some (put s d_idx (r(
       d_u := r d_u + dt * r d_ax,
       d_v := r d_v + dt * r d_ay,
       d_w := r d_w + dt * r d_az,
       d_x := r d_x + dt * 0.5 * ((r d_u + dt * r d_ax) + r d_u0),
       d_y := r d_y + dt * 0.5 * ((r d_v + dt * r d_ay) + r d_v0),
       d_z := r d_z + dt * 0.5 * ((r d_w + dt * r d_az) + r d_w0))))"
  using assms by (simp add: OneStageRigidBodyStep_stage2_def valid_index_def getitem_put setitem_put)

lemma VerletSymplecticWCSPHStep_stage1_put:
  assumes "valid_index s d_idx"
  shows "VerletSymplecticWCSPHStep_stage1 d_idx dt (put s d_idx r) = Some (put s d_idx (r(
       d_x := r d_x + (0.5 * dt) * r d_u,
       d_y := r d_y + (0.5 * dt) * r d_v,
       d_z := r d_z + (0.5 * dt) * r d_w)))"
  using assms by (simp add: VerletSymplecticWCSPHStep_stage1_def valid_index_def getitem_put setitem_put)

lemma VerletSymplecticWCSPHStep_stage2_put:
  assumes "valid_index s d_idx"
  shows "VerletSymplecticWCSPHStep_stage2 d_idx dt (put s d_idx r) = Some (put s d_idx (r(
       d_u := r d_u + dt * r d_au,
       d_v := r d_v + dt * r d_av,
       d_w := r d_w + dt * r d_aw,
       d_x := r d_x + (0.5 * dt) * r d_ax,
       d_y := r d_y + (0.5 * dt) * r d_ay,
       d_z := r d_z + (0.5 * dt) * r d_az)))"
  using assms by (simp add: VerletSymplecticWCSPHStep_stage2_def valid_index_def getitem_put setitem_put)

text \<open>The facts of this section, and the definitions of the methods that do nothing.\<close>

lemmas method_puts =
  EulerStep_stage1_put WCSPHStep_initialize_put WCSPHStep_stage1_put
  WCSPHStep_stage2_put WCSPHTVDRK3Step_initialize_put WCSPHTVDRK3Step_stage1_put
  WCSPHTVDRK3Step_stage2_put WCSPHTVDRK3Step_stage3_put SolidMechStep_initialize_put
  SolidMechStep_stage1_put SolidMechStep_stage2_put TransportVelocityStep_stage1_put
  TransportVelocityStep_stage2_put AdamiVerletStep_stage1_put AdamiVerletStep_stage2_put
  GasDFluidStep_initialize_put GasDFluidStep_stage1_put GasDFluidStep_stage2_put
  TwoStageRigidBodyStep_initialize_put TwoStageRigidBodyStep_stage1_put TwoStageRigidBodyStep_stage2_put
  OneStageRigidBodyStep_initialize_put OneStageRigidBodyStep_stage2_put VerletSymplecticWCSPHStep_stage1_put
  VerletSymplecticWCSPHStep_stage2_put

lemmas pass_methods =
  IntegratorStep_initialize_def IntegratorStep_stage1_def IntegratorStep_stage2_def
  EulerStep_initialize_def TransportVelocityStep_initialize_def AdamiVerletStep_initialize_def
  OneStageRigidBodyStep_stage1_def

section \<open>What each method writes\<close>

lemma writes_onlyI:
  assumes "\<And>s i r. valid_index s i \<Longrightarrow> f i (put s i r) = Some (put s i (k r))"
    and "\<And>r p. p \<notin> set ws \<Longrightarrow> k r p = r p"
  shows "writes_only f ws"
  using assms unfolding writes_only_def acts_on_particle_def by blast

lemma IntegratorStep_initialize_writes: "writes_only IntegratorStep_initialize []"
  by (rule writes_onlyI [where k = "\<lambda>r. r"]) (simp_all add: IntegratorStep_initialize_def)

lemma IntegratorStep_stage1_writes: "writes_only (\<lambda>d_idx. IntegratorStep_stage1 d_idx dt) []"
  by (rule writes_onlyI [where k = "\<lambda>r. r"]) (simp_all add: IntegratorStep_stage1_def)

lemma IntegratorStep_stage2_writes: "writes_only (\<lambda>d_idx. IntegratorStep_stage2 d_idx dt) []"
  by (rule writes_onlyI [where k = "\<lambda>r. r"]) (simp_all add: IntegratorStep_stage2_def)

lemma EulerStep_initialize_writes: "writes_only EulerStep_initialize []"
  by (rule writes_onlyI [where k = "\<lambda>r. r"]) (simp_all add: EulerStep_initialize_def)

lemma EulerStep_stage1_writes: "writes_only (\<lambda>d_idx. EulerStep_stage1 d_idx dt)
    [d_u, d_v, d_w, d_x, d_y, d_z, d_rho]"
  by (rule writes_onlyI, erule EulerStep_stage1_put) simp

lemma WCSPHStep_initialize_writes: "writes_only WCSPHStep_initialize
    [d_x0, d_y0, d_z0, d_u0, d_v0, d_w0, d_rho0]"
  by (rule writes_onlyI, erule WCSPHStep_initialize_put) simp

lemma WCSPHStep_stage1_writes: "writes_only (\<lambda>d_idx. WCSPHStep_stage1 d_idx dt)
    [d_u, d_v, d_w, d_x, d_y, d_z, d_rho]"
  by (rule writes_onlyI, erule WCSPHStep_stage1_put) simp

lemma WCSPHStep_stage2_writes: "writes_only (\<lambda>d_idx. WCSPHStep_stage2 d_idx dt)
    [d_u, d_v, d_w, d_x, d_y, d_z, d_rho]"
  by (rule writes_onlyI, erule WCSPHStep_stage2_put) simp

lemma WCSPHTVDRK3Step_initialize_writes: "writes_only WCSPHTVDRK3Step_initialize
    [d_x0, d_y0, d_z0, d_u0, d_v0, d_w0, d_rho0]"
  by (rule writes_onlyI, erule WCSPHTVDRK3Step_initialize_put) simp

lemma WCSPHTVDRK3Step_stage1_writes: "writes_only (\<lambda>d_idx. WCSPHTVDRK3Step_stage1 d_idx dt)
    [d_u, d_v, d_w, d_x, d_y, d_z, d_rho]"
  by (rule writes_onlyI, erule WCSPHTVDRK3Step_stage1_put) simp

lemma WCSPHTVDRK3Step_stage2_writes: "writes_only (\<lambda>d_idx. WCSPHTVDRK3Step_stage2 d_idx dt)
    [d_u, d_v, d_w, d_x, d_y, d_z, d_rho]"
  by (rule writes_onlyI, erule WCSPHTVDRK3Step_stage2_put) simp

lemma WCSPHTVDRK3Step_stage3_writes: "writes_only (\<lambda>d_idx. WCSPHTVDRK3Step_stage3 d_idx dt)
    [d_u, d_v, d_w, d_x, d_y, d_z, d_rho]"
  by (rule writes_onlyI, erule WCSPHTVDRK3Step_stage3_put) simp

lemma SolidMechStep_initialize_writes: "writes_only SolidMechStep_initialize
    [d_x0, d_y0, d_z0, d_u0, d_v0, d_w0, d_rho0, d_e0, d_s000, d_s010, d_s020, d_s110, d_s120, d_s220]"
  by (rule writes_onlyI, erule SolidMechStep_initialize_put) simp

lemma SolidMechStep_stage1_writes: "writes_only (\<lambda>d_idx. SolidMechStep_stage1 d_idx dt)
    [d_u, d_v, d_w, d_x, d_y, d_z, d_rho, d_e, d_s00, d_s01, d_s02, d_s11, d_s12, d_s22]"
  by (rule writes_onlyI, erule SolidMechStep_stage1_put) simp

lemma SolidMechStep_stage2_writes: "writes_only (\<lambda>d_idx. SolidMechStep_stage2 d_idx dt)
    [d_u, d_v, d_w, d_x, d_y, d_z, d_rho, d_e, d_s00, d_s01, d_s02, d_s11, d_s12, d_s22]"
  by (rule writes_onlyI, erule SolidMechStep_stage2_put) simp

lemma TransportVelocityStep_initialize_writes: "writes_only TransportVelocityStep_initialize []"
  by (rule writes_onlyI [where k = "\<lambda>r. r"]) (simp_all add: TransportVelocityStep_initialize_def)

lemma TransportVelocityStep_stage1_writes: "writes_only (\<lambda>d_idx. TransportVelocityStep_stage1 d_idx dt)
    [d_u, d_v, d_uhat, d_vhat, d_x, d_y]"
  by (rule writes_onlyI, erule TransportVelocityStep_stage1_put) simp

lemma TransportVelocityStep_stage2_writes: "writes_only (\<lambda>d_idx. TransportVelocityStep_stage2 d_idx dt)
    [d_u, d_v, d_vmag2]"
  by (rule writes_onlyI, erule TransportVelocityStep_stage2_put) simp

lemma AdamiVerletStep_initialize_writes: "writes_only AdamiVerletStep_initialize []"
  by (rule writes_onlyI [where k = "\<lambda>r. r"]) (simp_all add: AdamiVerletStep_initialize_def)

lemma AdamiVerletStep_stage1_writes: "writes_only (\<lambda>d_idx. AdamiVerletStep_stage1 d_idx dt)
    [d_u, d_v, d_x, d_y]"
  by (rule writes_onlyI, erule AdamiVerletStep_stage1_put) simp

lemma AdamiVerletStep_stage2_writes: "writes_only (\<lambda>d_idx. AdamiVerletStep_stage2 d_idx dt)
    [d_u, d_v, d_x, d_y, d_rho, d_vmag2]"
  by (rule writes_onlyI, erule AdamiVerletStep_stage2_put) simp

lemma GasDFluidStep_initialize_writes: "writes_only GasDFluidStep_initialize
    [d_x0, d_y0, d_z0, d_u0, d_v0, d_w0, d_e0, d_h0, d_converged, d_omega]"
  by (rule writes_onlyI, erule GasDFluidStep_initialize_put) simp

lemma GasDFluidStep_stage1_writes: "writes_only (\<lambda>d_idx. GasDFluidStep_stage1 d_idx dt)
    [d_u, d_v, d_w, d_x, d_y, d_z, d_e]"
  by (rule writes_onlyI, erule GasDFluidStep_stage1_put) simp

lemma GasDFluidStep_stage2_writes: "writes_only (\<lambda>d_idx. GasDFluidStep_stage2 d_idx dt)
    [d_u, d_v, d_w, d_x, d_y, d_z, d_e]"
  by (rule writes_onlyI, erule GasDFluidStep_stage2_put) simp

lemma TwoStageRigidBodyStep_initialize_writes: "writes_only TwoStageRigidBodyStep_initialize
    [d_u0, d_v0, d_w0, d_x0, d_y0, d_z0]"
  by (rule writes_onlyI, erule TwoStageRigidBodyStep_initialize_put) simp

lemma TwoStageRigidBodyStep_stage1_writes: "writes_only (\<lambda>d_idx. TwoStageRigidBodyStep_stage1 d_idx dt)
    [d_u, d_v, d_w, d_x, d_y, d_z]"
  by (rule writes_onlyI, erule TwoStageRigidBodyStep_stage1_put) simp

lemma TwoStageRigidBodyStep_stage2_writes: "writes_only (\<lambda>d_idx. TwoStageRigidBodyStep_stage2 d_idx dt)
    [d_u, d_v, d_w, d_x, d_y, d_z]"
  by (rule writes_onlyI, erule TwoStageRigidBodyStep_stage2_put) simp

lemma OneStageRigidBodyStep_initialize_writes: "writes_only OneStageRigidBodyStep_initialize
    [d_u0, d_v0, d_w0, d_x0, d_y0, d_z0]"
  by (rule writes_onlyI, erule OneStageRigidBodyStep_initialize_put) simp

lemma OneStageRigidBodyStep_stage1_writes: "writes_only (\<lambda>d_idx. OneStageRigidBodyStep_stage1 d_idx dt) []"
  by (rule writes_onlyI [where k = "\<lambda>r. r"]) (simp_all add: OneStageRigidBodyStep_stage1_def)

lemma OneStageRigidBodyStep_stage2_writes: "writes_only (\<lambda>d_idx. OneStageRigidBodyStep_stage2 d_idx dt)
    [d_u, d_v, d_w, d_x, d_y, d_z]"
  by (rule writes_onlyI, erule OneStageRigidBodyStep_stage2_put) simp

lemma VerletSymplecticWCSPHStep_stage1_writes: "writes_only (\<lambda>d_idx. VerletSymplecticWCSPHStep_stage1 d_idx dt)
    [d_x, d_y, d_z]"
  by (rule writes_onlyI, erule VerletSymplecticWCSPHStep_stage1_put) simp

lemma VerletSymplecticWCSPHStep_stage2_writes: "writes_only (\<lambda>d_idx. VerletSymplecticWCSPHStep_stage2 d_idx dt)
    [d_u, d_v, d_w, d_x, d_y, d_z]"
  by (rule writes_onlyI, erule VerletSymplecticWCSPHStep_stage2_put) simp

lemmas method_writes =
  IntegratorStep_initialize_writes IntegratorStep_stage1_writes IntegratorStep_stage2_writes
  EulerStep_initialize_writes EulerStep_stage1_writes WCSPHStep_initialize_writes
  WCSPHStep_stage1_writes WCSPHStep_stage2_writes WCSPHTVDRK3Step_initialize_writes
  WCSPHTVDRK3Step_stage1_writes WCSPHTVDRK3Step_stage2_writes WCSPHTVDRK3Step_stage3_writes
  SolidMechStep_initialize_writes SolidMechStep_stage1_writes SolidMechStep_stage2_writes
  TransportVelocityStep_initialize_writes TransportVelocityStep_stage1_writes TransportVelocityStep_stage2_writes
  AdamiVerletStep_initialize_writes AdamiVerletStep_stage1_writes AdamiVerletStep_stage2_writes
  GasDFluidStep_initialize_writes GasDFluidStep_stage1_writes GasDFluidStep_stage2_writes
  TwoStageRigidBodyStep_initialize_writes TwoStageRigidBodyStep_stage1_writes TwoStageRigidBodyStep_stage2_writes
  OneStageRigidBodyStep_initialize_writes OneStageRigidBodyStep_stage1_writes OneStageRigidBodyStep_stage2_writes
  VerletSymplecticWCSPHStep_stage1_writes VerletSymplecticWCSPHStep_stage2_writes

section \<open>Operations that act on one particle\<close>

lemma acts_on_particle_run:
  assumes "acts_on_particle f k" and "valid_index s i"
  shows "f i s = Some (put s i (k (particle s i)))"
proof -
  from assms have "f i (put s i (particle s i)) = Some (put s i (k (particle s i)))"
    unfolding acts_on_particle_def by blast
  then show ?thesis
    by (simp add: put_particle)
qed

lemma writes_only_run:
  assumes "writes_only f ws" and "valid_index s i"
  shows "\<exists>s'. f i s = Some s' \<and> (\<forall>p. length (s' p) = length (s p)) \<and>
    (\<forall>p j. j \<noteq> i \<longrightarrow> s' p ! j = s p ! j) \<and> (\<forall>p. p \<notin> set ws \<longrightarrow> s' p = s p)"
proof -
  from assms(1) obtain k where k: "acts_on_particle f k"
    and frame: "\<And>r p. p \<notin> set ws \<Longrightarrow> k r p = r p"
    unfolding writes_only_def by blast
  have "f i s = Some (put s i (k (particle s i)))"
    by (rule acts_on_particle_run [OF k assms(2)])
  moreover have "put s i (k (particle s i)) p = s p" if "p \<notin> set ws" for p
    by (rule put_unchanged) (simp add: frame [OF that] particle_def)
  ultimately show ?thesis
    by (simp add: length_put nth_put_other)
qed

lemma acts_on_particle_commute:
  assumes k: "acts_on_particle f k" and i: "valid_index s i" and j: "valid_index s j"
    and ij: "i \<noteq> j"
  shows "(f i s \<bind> f j) = Some (put (put s i (k (particle s i))) j (k (particle s j)))"
proof -
  have "f i s = Some (put s i (k (particle s i)))"
    by (rule acts_on_particle_run [OF k i])
  moreover have "f j (put s i (k (particle s i))) =
      Some (put (put s i (k (particle s i))) j (k (particle (put s i (k (particle s i))) j)))"
    by (rule acts_on_particle_run [OF k]) (simp add: valid_index_put j)
  moreover have "particle (put s i (k (particle s i))) j = particle s j"
    using ij by (simp add: particle_put_other)
  ultimately show ?thesis
    by simp
qed

lemma acts_on_particle_reads:
  assumes k: "acts_on_particle f k" and s: "valid_index s i" and t: "valid_index t i"
    and same: "particle t i = particle s i"
  shows "\<exists>s' t'. f i s = Some s' \<and> f i t = Some t' \<and> particle t' i = particle s' i"
  using acts_on_particle_run [OF k s] acts_on_particle_run [OF k t] same s t
  by (simp add: particle_put_same)

section \<open>The operations of the schemes\<close>

lemma writes_only_mono:
  assumes "writes_only f ws" and "set ws \<subseteq> set ws'"
  shows "writes_only f ws'"
  using assms unfolding writes_only_def by blast

lemma initialize_writes: "writes_only (initialize sch) (initialize_targets sch)"
  by (cases sch; simp add: wcsph_predictors_def rigid_body_predictors_def;
      rule writes_only_mono, rule method_writes, simp)

lemma stage_writes:
  assumes "g \<in> set (stages sch)"
  shows "writes_only (\<lambda>d_idx. g d_idx dt) (stage_targets sch)"
  using assms
  by (cases sch; simp)
    (elim disjE; hypsubst; (rule writes_only_mono, rule method_writes, simp))+

lemma stage_targets_predictors: "set (stage_targets sch) \<inter> fst ` set (predictors sch) = {}"
  by (cases sch) (simp_all add: wcsph_predictors_def rigid_body_predictors_def)

lemma operations_cases:
  assumes "(stg, f) \<in> set (operations sch dt)"
  shows "(\<not> stg \<and> f = initialize sch) \<or>
    (stg \<and> (\<exists>g \<in> set (stages sch). f = (\<lambda>d_idx. g d_idx dt)))"
  using assms by (auto simp add: operations_def)

lemma operations_write:
  assumes "(stg, f) \<in> set (operations sch dt)"
  shows "writes_only f (if stg then stage_targets sch else initialize_targets sch)"
  using operations_cases [OF assms] by (auto simp add: initialize_writes stage_writes)

section \<open>A time step of size zero\<close>





section \<open>The TVD Runge-Kutta step\<close>

text \<open>
  Claim C2. For \<^verbatim>\<open>WCSPHTVDRK3Step\<close>, at a valid particle index and for all arrays,
  \<^verbatim>\<open>initialize\<close>, \<^verbatim>\<open>stage1\<close>, \<^verbatim>\<open>stage2\<close> and \<^verbatim>\<open>stage3\<close> with the same \<open>dt\<close> and with the
  acceleration arrays left as they are return, and each of \<open>u, v, w, x, y, z, rho\<close> is then its
  value before the step plus \<open>dt\<close> times its acceleration: one Euler step of size \<open>dt\<close>.
  The coefficients are those of the source, 0.75 and 0.25 in \<^verbatim>\<open>stage2\<close>, 1/3 and 2/3 in
  \<^verbatim>\<open>stage3\<close>; the arithmetic is that of the real numbers.
\<close>

theorem WCSPHTVDRK3Step_constant_acceleration:
  assumes "valid_index s i"
  shows "\<exists>s'. (WCSPHTVDRK3Step_initialize i s \<bind> WCSPHTVDRK3Step_stage1 i dt
            \<bind> WCSPHTVDRK3Step_stage2 i dt \<bind> WCSPHTVDRK3Step_stage3 i dt) = Some s' \<and>
     s' d_u ! i = s d_u ! i + dt * s d_au ! i \<and>
     s' d_v ! i = s d_v ! i + dt * s d_av ! i \<and>
     s' d_w ! i = s d_w ! i + dt * s d_aw ! i \<and>
     s' d_x ! i = s d_x ! i + dt * s d_ax ! i \<and>
     s' d_y ! i = s d_y ! i + dt * s d_ay ! i \<and>
     s' d_z ! i = s d_z ! i + dt * s d_az ! i \<and>
     s' d_rho ! i = s d_rho ! i + dt * s d_arho ! i"
proof -
  have len: "\<And>p. i < length (s p)"
    using assms by (simp add: valid_index_def)
  show ?thesis
    by (rule via_put [where i = i and F = "\<lambda>s. WCSPHTVDRK3Step_initialize i s
          \<bind> WCSPHTVDRK3Step_stage1 i dt \<bind> WCSPHTVDRK3Step_stage2 i dt
          \<bind> WCSPHTVDRK3Step_stage3 i dt"])
      (simp add: WCSPHTVDRK3Step_initialize_put WCSPHTVDRK3Step_stage1_put
         WCSPHTVDRK3Step_stage2_put WCSPHTVDRK3Step_stage3_put assms,
       simp add: nth_put_same len particle_def field_simps)
qed

theorem WCSPHTVDRK3Step_constant_acceleration_witness:
  "valid_index example_group 1 \<and>
   (\<exists>s'. (WCSPHTVDRK3Step_initialize 1 example_group \<bind> WCSPHTVDRK3Step_stage1 1 3
            \<bind> WCSPHTVDRK3Step_stage2 1 3 \<bind> WCSPHTVDRK3Step_stage3 1 3) = Some s' \<and>
     s' d_u ! 1 = 17 \<and> s' d_x ! 1 = 20 \<and> s' d_rho ! 1 = 8)"
proof -
  have v: "valid_index example_group 1"
    by (simp add: valid_index_def example_group_def)
  from WCSPHTVDRK3Step_constant_acceleration [OF v, of 3]
  obtain s' where "(WCSPHTVDRK3Step_initialize 1 example_group \<bind> WCSPHTVDRK3Step_stage1 1 3
            \<bind> WCSPHTVDRK3Step_stage2 1 3 \<bind> WCSPHTVDRK3Step_stage3 1 3) = Some s'"
    and "s' d_u ! 1 = example_group d_u ! 1 + 3 * example_group d_au ! 1"
    and "s' d_x ! 1 = example_group d_x ! 1 + 3 * example_group d_ax ! 1"
    and "s' d_rho ! 1 = example_group d_rho ! 1 + 3 * example_group d_arho ! 1"
    by blast
  then show ?thesis
    using v by (simp add: example_group_def)
qed

section \<open>The predictor-corrector steps\<close>

text \<open>
  Claim C3. For \<^verbatim>\<open>WCSPHStep\<close> and for \<^verbatim>\<open>SolidMechStep\<close>, at a valid particle index and for
  all arrays, \<^verbatim>\<open>initialize\<close>, \<^verbatim>\<open>stage1\<close> and \<^verbatim>\<open>stage2\<close> with the acceleration arrays left as
  they are return, each updated quantity is then its value before the step plus \<open>dt\<close> times
  its acceleration, and the result is the one of \<^verbatim>\<open>initialize\<close> and \<^verbatim>\<open>stage2\<close> without
  \<^verbatim>\<open>stage1\<close>, whatever time step \<^verbatim>\<open>stage1\<close> was called with.
\<close>

theorem predictor_corrector_constant_acceleration:
  assumes "valid_index s i"
  shows "(\<exists>s'. (WCSPHStep_initialize i s \<bind> WCSPHStep_stage1 i dt1
             \<bind> WCSPHStep_stage2 i dt) = Some s' \<and>
     (WCSPHStep_initialize i s \<bind> WCSPHStep_stage2 i dt) = Some s' \<and>
     s' d_u ! i = s d_u ! i + dt * s d_au ! i \<and>
     s' d_v ! i = s d_v ! i + dt * s d_av ! i \<and>
     s' d_w ! i = s d_w ! i + dt * s d_aw ! i \<and>
     s' d_x ! i = s d_x ! i + dt * s d_ax ! i \<and>
     s' d_y ! i = s d_y ! i + dt * s d_ay ! i \<and>
     s' d_z ! i = s d_z ! i + dt * s d_az ! i \<and>
     s' d_rho ! i = s d_rho ! i + dt * s d_arho ! i) \<and>
   (\<exists>s'. (SolidMechStep_initialize i s \<bind> SolidMechStep_stage1 i dt1
             \<bind> SolidMechStep_stage2 i dt) = Some s' \<and>
     (SolidMechStep_initialize i s \<bind> SolidMechStep_stage2 i dt) = Some s' \<and>
     s' d_u ! i = s d_u ! i + dt * s d_au ! i \<and>
     s' d_v ! i = s d_v ! i + dt * s d_av ! i \<and>
     s' d_w ! i = s d_w ! i + dt * s d_aw ! i \<and>
     s' d_x ! i = s d_x ! i + dt * s d_ax ! i \<and>
     s' d_y ! i = s d_y ! i + dt * s d_ay ! i \<and>
     s' d_z ! i = s d_z ! i + dt * s d_az ! i \<and>
     s' d_rho ! i = s d_rho ! i + dt * s d_arho ! i \<and>
     s' d_e ! i = s d_e ! i + dt * s d_ae ! i \<and>
     s' d_s00 ! i = s d_s00 ! i + dt * s d_as00 ! i \<and>
     s' d_s01 ! i = s d_s01 ! i + dt * s d_as01 ! i \<and>
     s' d_s02 ! i = s d_s02 ! i + dt * s d_as02 ! i \<and>
     s' d_s11 ! i = s d_s11 ! i + dt * s d_as11 ! i \<and>
     s' d_s12 ! i = s d_s12 ! i + dt * s d_as12 ! i \<and>
     s' d_s22 ! i = s d_s22 ! i + dt * s d_as22 ! i)"
proof -
  have len: "\<And>p. i < length (s p)"
    using assms by (simp add: valid_index_def)
  have wcsph: "\<exists>s'. (WCSPHStep_initialize i s \<bind> WCSPHStep_stage1 i dt1
             \<bind> WCSPHStep_stage2 i dt) = Some s' \<and>
     (WCSPHStep_initialize i s \<bind> WCSPHStep_stage2 i dt) = Some s' \<and>
     s' d_u ! i = s d_u ! i + dt * s d_au ! i \<and>
     s' d_v ! i = s d_v ! i + dt * s d_av ! i \<and>
     s' d_w ! i = s d_w ! i + dt * s d_aw ! i \<and>
     s' d_x ! i = s d_x ! i + dt * s d_ax ! i \<and>
     s' d_y ! i = s d_y ! i + dt * s d_ay ! i \<and>
     s' d_z ! i = s d_z ! i + dt * s d_az ! i \<and>
     s' d_rho ! i = s d_rho ! i + dt * s d_arho ! i"
    by (rule via_put [where i = i and F = "\<lambda>s. WCSPHStep_initialize i s
          \<bind> WCSPHStep_stage1 i dt1 \<bind> WCSPHStep_stage2 i dt"])
      (simp add: WCSPHStep_initialize_put WCSPHStep_stage1_put WCSPHStep_stage2_put assms,
       simp add: nth_put_same len particle_def
         WCSPHStep_initialize_put [of s i "particle s i", unfolded put_particle]
         WCSPHStep_stage2_put assms)
  have solid: "\<exists>s'. (SolidMechStep_initialize i s \<bind> SolidMechStep_stage1 i dt1
             \<bind> SolidMechStep_stage2 i dt) = Some s' \<and>
     (SolidMechStep_initialize i s \<bind> SolidMechStep_stage2 i dt) = Some s' \<and>
     s' d_u ! i = s d_u ! i + dt * s d_au ! i \<and>
     s' d_v ! i = s d_v ! i + dt * s d_av ! i \<and>
     s' d_w ! i = s d_w ! i + dt * s d_aw ! i \<and>
     s' d_x ! i = s d_x ! i + dt * s d_ax ! i \<and>
     s' d_y ! i = s d_y ! i + dt * s d_ay ! i \<and>
     s' d_z ! i = s d_z ! i + dt * s d_az ! i \<and>
     s' d_rho ! i = s d_rho ! i + dt * s d_arho ! i \<and>
     s' d_e ! i = s d_e ! i + dt * s d_ae ! i \<and>
     s' d_s00 ! i = s d_s00 ! i + dt * s d_as00 ! i \<and>
     s' d_s01 ! i = s d_s01 ! i + dt * s d_as01 ! i \<and>
     s' d_s02 ! i = s d_s02 ! i + dt * s d_as02 ! i \<and>
     s' d_s11 ! i = s d_s11 ! i + dt * s d_as11 ! i \<and>
     s' d_s12 ! i = s d_s12 ! i + dt * s d_as12 ! i \<and>
     s' d_s22 ! i = s d_s22 ! i + dt * s d_as22 ! i"
    by (rule via_put [where i = i and F = "\<lambda>s. SolidMechStep_initialize i s
          \<bind> SolidMechStep_stage1 i dt1 \<bind> SolidMechStep_stage2 i dt"])
      (simp add: SolidMechStep_initialize_put SolidMechStep_stage1_put SolidMechStep_stage2_put
         assms,
       simp add: nth_put_same len particle_def
         SolidMechStep_initialize_put [of s i "particle s i", unfolded put_particle]
         SolidMechStep_stage2_put assms)
  from wcsph solid show ?thesis ..
qed

theorem predictor_corrector_constant_acceleration_witness:
  "valid_index example_group 0 \<and>
   (\<exists>s'. (WCSPHStep_initialize 0 example_group \<bind> WCSPHStep_stage1 0 2
             \<bind> WCSPHStep_stage2 0 2) = Some s' \<and>
     (WCSPHStep_initialize 0 example_group \<bind> WCSPHStep_stage2 0 2) = Some s' \<and>
     s' d_u ! 0 = 7 \<and> s' d_x ! 0 = 9) \<and>
   (\<exists>s'. (SolidMechStep_initialize 0 example_group \<bind> SolidMechStep_stage1 0 2
             \<bind> SolidMechStep_stage2 0 2) = Some s' \<and>
     (SolidMechStep_initialize 0 example_group \<bind> SolidMechStep_stage2 0 2) = Some s' \<and>
     s' d_u ! 0 = 7 \<and> s' d_s00 ! 0 = 3)"
proof -
  have v: "valid_index example_group 0"
    by (simp add: valid_index_def example_group_def)
  from predictor_corrector_constant_acceleration [OF v, of 2 2]
  obtain s1 s2 where "(WCSPHStep_initialize 0 example_group \<bind> WCSPHStep_stage1 0 2
             \<bind> WCSPHStep_stage2 0 2) = Some s1"
    and "(WCSPHStep_initialize 0 example_group \<bind> WCSPHStep_stage2 0 2) = Some s1"
    and "s1 d_u ! 0 = example_group d_u ! 0 + 2 * example_group d_au ! 0"
    and "s1 d_x ! 0 = example_group d_x ! 0 + 2 * example_group d_ax ! 0"
    and "(SolidMechStep_initialize 0 example_group \<bind> SolidMechStep_stage1 0 2
             \<bind> SolidMechStep_stage2 0 2) = Some s2"
    and "(SolidMechStep_initialize 0 example_group \<bind> SolidMechStep_stage2 0 2) = Some s2"
    and "s2 d_u ! 0 = example_group d_u ! 0 + 2 * example_group d_au ! 0"
    and "s2 d_s00 ! 0 = example_group d_s00 ! 0 + 2 * example_group d_as00 ! 0"
    by blast
  then show ?thesis
    using v by (simp add: example_group_def)
qed

section \<open>The rigid body steps\<close>

text \<open>
  Claim C4. For \<^verbatim>\<open>TwoStageRigidBodyStep\<close> and for \<^verbatim>\<open>OneStageRigidBodyStep\<close>, at a valid
  particle index and for all arrays, \<^verbatim>\<open>initialize\<close>, \<^verbatim>\<open>stage1\<close> and \<^verbatim>\<open>stage2\<close> with the same
  \<open>dt\<close> and with the accelerations \<^verbatim>\<open>d_ax\<close>, \<^verbatim>\<open>d_ay\<close>, \<^verbatim>\<open>d_az\<close> left as they are return, and
  then each position is \<open>x0 + u0 * dt + 0.5 * a * dt\<^sup>2\<close> and each velocity \<open>u0 + a * dt\<close>, for
  the position \<open>x0\<close> and the velocity \<open>u0\<close> before the step (in real arithmetic).
\<close>

theorem rigid_body_constant_acceleration:
  assumes "valid_index s i"
  shows "(\<exists>s'. (TwoStageRigidBodyStep_initialize i s \<bind> TwoStageRigidBodyStep_stage1 i dt
             \<bind> TwoStageRigidBodyStep_stage2 i dt) = Some s' \<and>
     s' d_x ! i = s d_x ! i + s d_u ! i * dt + 0.5 * s d_ax ! i * dt\<^sup>2 \<and>
     s' d_y ! i = s d_y ! i + s d_v ! i * dt + 0.5 * s d_ay ! i * dt\<^sup>2 \<and>
     s' d_z ! i = s d_z ! i + s d_w ! i * dt + 0.5 * s d_az ! i * dt\<^sup>2 \<and>
     s' d_u ! i = s d_u ! i + s d_ax ! i * dt \<and>
     s' d_v ! i = s d_v ! i + s d_ay ! i * dt \<and>
     s' d_w ! i = s d_w ! i + s d_az ! i * dt) \<and>
   (\<exists>s'. (OneStageRigidBodyStep_initialize i s \<bind> OneStageRigidBodyStep_stage1 i dt
             \<bind> OneStageRigidBodyStep_stage2 i dt) = Some s' \<and>
     s' d_x ! i = s d_x ! i + s d_u ! i * dt + 0.5 * s d_ax ! i * dt\<^sup>2 \<and>
     s' d_y ! i = s d_y ! i + s d_v ! i * dt + 0.5 * s d_ay ! i * dt\<^sup>2 \<and>
     s' d_z ! i = s d_z ! i + s d_w ! i * dt + 0.5 * s d_az ! i * dt\<^sup>2 \<and>
     s' d_u ! i = s d_u ! i + s d_ax ! i * dt \<and>
     s' d_v ! i = s d_v ! i + s d_ay ! i * dt \<and>
     s' d_w ! i = s d_w ! i + s d_az ! i * dt)"
proof -
  have len: "\<And>p. i < length (s p)"
    using assms by (simp add: valid_index_def)
  have two: "\<exists>s'. (TwoStageRigidBodyStep_initialize i s \<bind> TwoStageRigidBodyStep_stage1 i dt
             \<bind> TwoStageRigidBodyStep_stage2 i dt) = Some s' \<and>
     s' d_x ! i = s d_x ! i + s d_u ! i * dt + 0.5 * s d_ax ! i * dt\<^sup>2 \<and>
     s' d_y ! i = s d_y ! i + s d_v ! i * dt + 0.5 * s d_ay ! i * dt\<^sup>2 \<and>
     s' d_z ! i = s d_z ! i + s d_w ! i * dt + 0.5 * s d_az ! i * dt\<^sup>2 \<and>
     s' d_u ! i = s d_u ! i + s d_ax ! i * dt \<and>
     s' d_v ! i = s d_v ! i + s d_ay ! i * dt \<and>
     s' d_w ! i = s d_w ! i + s d_az ! i * dt"
    by (rule via_put [where i = i and F = "\<lambda>s. TwoStageRigidBodyStep_initialize i s
          \<bind> TwoStageRigidBodyStep_stage1 i dt \<bind> TwoStageRigidBodyStep_stage2 i dt"])
      (simp add: TwoStageRigidBodyStep_initialize_put TwoStageRigidBodyStep_stage1_put
         TwoStageRigidBodyStep_stage2_put assms,
       simp add: nth_put_same len particle_def, simp add: field_simps power2_eq_square)
  have one: "\<exists>s'. (OneStageRigidBodyStep_initialize i s \<bind> OneStageRigidBodyStep_stage1 i dt
             \<bind> OneStageRigidBodyStep_stage2 i dt) = Some s' \<and>
     s' d_x ! i = s d_x ! i + s d_u ! i * dt + 0.5 * s d_ax ! i * dt\<^sup>2 \<and>
     s' d_y ! i = s d_y ! i + s d_v ! i * dt + 0.5 * s d_ay ! i * dt\<^sup>2 \<and>
     s' d_z ! i = s d_z ! i + s d_w ! i * dt + 0.5 * s d_az ! i * dt\<^sup>2 \<and>
     s' d_u ! i = s d_u ! i + s d_ax ! i * dt \<and>
     s' d_v ! i = s d_v ! i + s d_ay ! i * dt \<and>
     s' d_w ! i = s d_w ! i + s d_az ! i * dt"
    by (rule via_put [where i = i and F = "\<lambda>s. OneStageRigidBodyStep_initialize i s
          \<bind> OneStageRigidBodyStep_stage1 i dt \<bind> OneStageRigidBodyStep_stage2 i dt"])
      (simp add: OneStageRigidBodyStep_initialize_put OneStageRigidBodyStep_stage1_def
         OneStageRigidBodyStep_stage2_put assms,
       simp add: nth_put_same len particle_def, simp add: field_simps power2_eq_square)
  from two one show ?thesis ..
qed

theorem rigid_body_constant_acceleration_witness:
  "valid_index example_group 0 \<and>
   (\<exists>s'. (TwoStageRigidBodyStep_initialize 0 example_group
             \<bind> TwoStageRigidBodyStep_stage1 0 2
             \<bind> TwoStageRigidBodyStep_stage2 0 2) = Some s' \<and>
     s' d_x ! 0 = 11 \<and> s' d_u ! 0 = 9) \<and>
   (\<exists>s'. (OneStageRigidBodyStep_initialize 0 example_group
             \<bind> OneStageRigidBodyStep_stage1 0 2
             \<bind> OneStageRigidBodyStep_stage2 0 2) = Some s' \<and>
     s' d_x ! 0 = 11 \<and> s' d_u ! 0 = 9)"
proof -
  have v: "valid_index example_group 0"
    by (simp add: valid_index_def example_group_def)
  from rigid_body_constant_acceleration [OF v, of 2]
  obtain s1 s2 where "(TwoStageRigidBodyStep_initialize 0 example_group
             \<bind> TwoStageRigidBodyStep_stage1 0 2
             \<bind> TwoStageRigidBodyStep_stage2 0 2) = Some s1"
    and "s1 d_x ! 0 =
      example_group d_x ! 0 + example_group d_u ! 0 * 2 + 0.5 * example_group d_ax ! 0 * 2\<^sup>2"
    and "s1 d_u ! 0 = example_group d_u ! 0 + example_group d_ax ! 0 * 2"
    and "(OneStageRigidBodyStep_initialize 0 example_group
             \<bind> OneStageRigidBodyStep_stage1 0 2
             \<bind> OneStageRigidBodyStep_stage2 0 2) = Some s2"
    and "s2 d_x ! 0 =
      example_group d_x ! 0 + example_group d_u ! 0 * 2 + 0.5 * example_group d_ax ! 0 * 2\<^sup>2"
    and "s2 d_u ! 0 = example_group d_u ! 0 + example_group d_ax ! 0 * 2"
    by blast
  then show ?thesis
    using v by (simp add: example_group_def)
qed

section \<open>The predictor arrays\<close>

lemma predictors_not_accelerations:
  assumes "p \<in> fst ` set (predictors sch)"
  shows "p \<notin> set acceleration_names"
  using assms
  by (cases sch)
    (auto simp add: wcsph_predictors_def rigid_body_predictors_def acceleration_names_def)

lemma particle_group_set_accelerations:
  assumes "particle_group n a" and "particle_group n s"
  shows "particle_group n (set_accelerations a s)"
  using assms by (simp add: particle_group_def set_accelerations_def)

lemma stage_keeps_predictors:
  assumes g: "g \<in> set (stages sch)" and s: "particle_group n s" and j: "j < n"
  shows "\<exists>s'. g j dt s = Some s' \<and> particle_group n s' \<and>
    (\<forall>p \<in> fst ` set (predictors sch). s' p = s p)"
proof -
  from writes_only_run [OF stage_writes [OF g, of dt] particle_group_valid [OF s j]]
  obtain s' where run: "g j dt s = Some s'"
    and len: "\<And>p. length (s' p) = length (s p)"
    and frame: "\<And>p. p \<notin> set (stage_targets sch) \<Longrightarrow> s' p = s p"
    by blast
  have "particle_group n s'"
    using s len by (simp add: particle_group_def)
  moreover have "s' p = s p" if "p \<in> fst ` set (predictors sch)" for p
    using that stage_targets_predictors [of sch] by (intro frame) blast
  ultimately show ?thesis
    using run by blast
qed

lemma stage_calls_keep_predictors:
  assumes "particle_group n s"
    and "\<forall>(a, k, j, dt) \<in> set calls. particle_group n a \<and> k < length (stages sch) \<and> j < n"
  shows "\<exists>s'. stage_calls sch calls s = Some s' \<and>
    (\<forall>p \<in> fst ` set (predictors sch). s' p = s p)"
  using assms
proof (induction calls arbitrary: s)
  case Nil
  then show ?case by simp
next
  case (Cons c calls)
  obtain a k j dt where c: "c = (a, k, j, dt)"
    by (cases c) auto
  from Cons.prems c have a: "particle_group n a" and k: "k < length (stages sch)"
    and j: "j < n"
    by auto
  let ?t = "set_accelerations a s"
  have t: "particle_group n ?t"
    by (rule particle_group_set_accelerations [OF a Cons.prems(1)])
  have same: "?t p = s p" if "p \<in> fst ` set (predictors sch)" for p
    using predictors_not_accelerations [OF that] by (simp add: set_accelerations_def)
  from stage_keeps_predictors [OF nth_mem [OF k] t j, of dt]
  obtain t' where run: "(stages sch ! k) j dt ?t = Some t'" and t': "particle_group n t'"
    and keep: "\<And>p. p \<in> fst ` set (predictors sch) \<Longrightarrow> t' p = ?t p"
    by blast
  from Cons.IH [OF t'] Cons.prems(2)
  obtain s' where rest: "stage_calls sch calls t' = Some s'"
    and keep': "\<And>p. p \<in> fst ` set (predictors sch) \<Longrightarrow> s' p = t' p"
    by auto
  have "stage_calls sch (c # calls) s = Some s'"
    using c k run rest by simp
  moreover have "s' p = s p" if "p \<in> fst ` set (predictors sch)" for p
    using keep' [OF that] keep [OF that] same [OF that] by simp
  ultimately show ?case
    by blast
qed

lemma initialize_copies:
  assumes "valid_index s i"
  shows "\<exists>s'. initialize sch i s = Some s' \<and> (\<forall>p. length (s' p) = length (s p)) \<and>
    (\<forall>(p0, p) \<in> set (predictors sch). s' p0 ! i = s p ! i)"
proof -
  have len: "\<And>p. i < length (s p)"
    using assms by (simp add: valid_index_def)
  show ?thesis
  proof (cases sch)
    case EulerStep
    show ?thesis
      unfolding EulerStep
      by (rule via_put [where i = i and F = "initialize EulerStep i"])
        (simp add: method_puts pass_methods assms,
         simp add: nth_put_same length_put len particle_def
           wcsph_predictors_def rigid_body_predictors_def)
  next
    case WCSPHStep
    show ?thesis
      unfolding WCSPHStep
      by (rule via_put [where i = i and F = "initialize WCSPHStep i"])
        (simp add: method_puts pass_methods assms,
         simp add: nth_put_same length_put len particle_def
           wcsph_predictors_def rigid_body_predictors_def)
  next
    case WCSPHTVDRK3Step
    show ?thesis
      unfolding WCSPHTVDRK3Step
      by (rule via_put [where i = i and F = "initialize WCSPHTVDRK3Step i"])
        (simp add: method_puts pass_methods assms,
         simp add: nth_put_same length_put len particle_def
           wcsph_predictors_def rigid_body_predictors_def)
  next
    case SolidMechStep
    show ?thesis
      unfolding SolidMechStep
      by (rule via_put [where i = i and F = "initialize SolidMechStep i"])
        (simp add: method_puts pass_methods assms,
         simp add: nth_put_same length_put len particle_def
           wcsph_predictors_def rigid_body_predictors_def)
  next
    case TransportVelocityStep
    show ?thesis
      unfolding TransportVelocityStep
      by (rule via_put [where i = i and F = "initialize TransportVelocityStep i"])
        (simp add: method_puts pass_methods assms,
         simp add: nth_put_same length_put len particle_def
           wcsph_predictors_def rigid_body_predictors_def)
  next
    case AdamiVerletStep
    show ?thesis
      unfolding AdamiVerletStep
      by (rule via_put [where i = i and F = "initialize AdamiVerletStep i"])
        (simp add: method_puts pass_methods assms,
         simp add: nth_put_same length_put len particle_def
           wcsph_predictors_def rigid_body_predictors_def)
  next
    case GasDFluidStep
    show ?thesis
      unfolding GasDFluidStep
      by (rule via_put [where i = i and F = "initialize GasDFluidStep i"])
        (simp add: method_puts pass_methods assms,
         simp add: nth_put_same length_put len particle_def
           wcsph_predictors_def rigid_body_predictors_def)
  next
    case TwoStageRigidBodyStep
    show ?thesis
      unfolding TwoStageRigidBodyStep
      by (rule via_put [where i = i and F = "initialize TwoStageRigidBodyStep i"])
        (simp add: method_puts pass_methods assms,
         simp add: nth_put_same length_put len particle_def
           wcsph_predictors_def rigid_body_predictors_def)
  next
    case OneStageRigidBodyStep
    show ?thesis
      unfolding OneStageRigidBodyStep
      by (rule via_put [where i = i and F = "initialize OneStageRigidBodyStep i"])
        (simp add: method_puts pass_methods assms,
         simp add: nth_put_same length_put len particle_def
           wcsph_predictors_def rigid_body_predictors_def)
  next
    case VerletSymplecticWCSPHStep
    show ?thesis
      unfolding VerletSymplecticWCSPHStep
      by (rule via_put [where i = i and F = "initialize VerletSymplecticWCSPHStep i"])
        (simp add: method_puts pass_methods assms,
         simp add: nth_put_same length_put len particle_def
           wcsph_predictors_def rigid_body_predictors_def)
  qed
qed

text \<open>
  Claim C5. For a group of \<open>n\<close> particles, a particle \<open>i\<close> and a scheme with predictor arrays
  (\<^verbatim>\<open>WCSPHStep\<close>, \<^verbatim>\<open>WCSPHTVDRK3Step\<close>, \<^verbatim>\<open>SolidMechStep\<close>, \<^verbatim>\<open>GasDFluidStep\<close>,
  \<^verbatim>\<open>TwoStageRigidBodyStep\<close>, \<^verbatim>\<open>OneStageRigidBodyStep\<close>): \<^verbatim>\<open>initialize\<close> returns, then any
  sequence of calls of the scheme's stages returns, at whatever particles of the group,
  with whatever \<open>dt\<close> and whatever accelerations the evaluator has left before each call,
  and every predictor array is still as \<^verbatim>\<open>initialize\<close> left it, its element at \<open>i\<close> being the
  value of the current property before the step. (For the other schemes the list of
  predictor arrays is empty.)
\<close>

theorem predictors_never_written:
  assumes "particle_group n s" and "i < n"
    and "\<forall>(a, k, j, dt) \<in> set calls. particle_group n a \<and> k < length (stages sch) \<and> j < n"
  shows "\<exists>s1 s2. initialize sch i s = Some s1 \<and> stage_calls sch calls s1 = Some s2 \<and>
    (\<forall>(p0, p) \<in> set (predictors sch). s2 p0 = s1 p0 \<and> s2 p0 ! i = s p ! i)"
proof -
  from initialize_copies [OF particle_group_valid [OF assms(1,2)], of sch]
  obtain s1 where init: "initialize sch i s = Some s1"
    and len: "\<And>p. length (s1 p) = length (s p)"
    and copy: "\<And>p0 p. (p0, p) \<in> set (predictors sch) \<Longrightarrow> s1 p0 ! i = s p ! i"
    by blast
  have "particle_group n s1"
    using assms(1) len by (simp add: particle_group_def)
  from stage_calls_keep_predictors [OF this assms(3)]
  obtain s2 where calls: "stage_calls sch calls s1 = Some s2"
    and keep: "\<And>p. p \<in> fst ` set (predictors sch) \<Longrightarrow> s2 p = s1 p"
    by blast
  have "s2 p0 = s1 p0 \<and> s2 p0 ! i = s p ! i" if "(p0, p) \<in> set (predictors sch)" for p0 p
  proof -
    from that have "p0 \<in> fst ` set (predictors sch)"
      by force
    then show ?thesis
      using keep copy [OF that] by simp
  qed
  with init calls show ?thesis
    by blast
qed

theorem predictors_never_written_witness:
  "particle_group 2 example_group \<and>
   (\<exists>s1 s2. initialize WCSPHStep 0 example_group = Some s1 \<and>
      stage_calls WCSPHStep [(example_group, 0, 0, 2), (example_group, 1, 1, 3)] s1 = Some s2 \<and>
      s2 d_x0 = s1 d_x0 \<and> s2 d_x0 ! 0 = 1 \<and> s2 d_u0 = s1 d_u0 \<and> s2 d_u0 ! 0 = 1)"
proof -
  have g: "particle_group 2 example_group"
    by (simp add: particle_group_def example_group_def)
  have c: "\<forall>(a, k, j, dt) \<in> set [(example_group, 0, 0, 2), (example_group, 1, 1, 3 :: real)].
      particle_group 2 a \<and> k < length (stages WCSPHStep) \<and> j < (2 :: nat)"
    using g by simp
  have i: "(0 :: nat) < 2"
    by simp
  from predictors_never_written [OF g i c]
  obtain s1 s2 where "initialize WCSPHStep 0 example_group = Some s1"
    and "stage_calls WCSPHStep [(example_group, 0, 0, 2), (example_group, 1, 1, 3)] s1 = Some s2"
    and "\<forall>(p0, p) \<in> set (predictors WCSPHStep).
      s2 p0 = s1 p0 \<and> s2 p0 ! 0 = example_group p ! 0"
    by blast
  moreover have "(d_x0, d_x) \<in> set (predictors WCSPHStep)"
    and "(d_u0, d_u) \<in> set (predictors WCSPHStep)"
    by (simp_all add: wcsph_predictors_def)
  ultimately have "initialize WCSPHStep 0 example_group = Some s1"
    and "stage_calls WCSPHStep [(example_group, 0, 0, 2), (example_group, 1, 1, 3)] s1 = Some s2"
    and "s2 d_x0 = s1 d_x0" and "s2 d_x0 ! 0 = example_group d_x ! 0"
    and "s2 d_u0 = s1 d_u0" and "s2 d_u0 ! 0 = example_group d_u ! 0"
    by blast+
  then show ?thesis
    using g by (simp add: example_group_def)
qed

section \<open>Calls at distinct particles\<close>

text \<open>
  Claim C6, as amended. For every scheme and each of its operations (\<^verbatim>\<open>initialize\<close> or a
  stage at some \<open>dt\<close>), a call at a valid particle index \<open>i\<close> returns; it changes no element
  at another index and no array but the targets of the operation (for a stage the
  current properties that the stages of the scheme assign to, never a predictor array;
  for \<^verbatim>\<open>initialize\<close> the predictor arrays and, in \<^verbatim>\<open>GasDFluidStep\<close>, \<^verbatim>\<open>d_converged\<close> and
  \<^verbatim>\<open>d_omega\<close>); what it stores at \<open>i\<close> depends only on the values at \<open>i\<close>, whichever
  properties they belong to; and calls of the operation at two distinct valid indices
  commute.
\<close>

theorem operations_are_local:
  assumes "(stg, f) \<in> set (operations sch dt)"
    and "valid_index s i" and "valid_index s j" and "i \<noteq> j"
  shows "\<exists>s'. f i s = Some s' \<and>
     (\<forall>p. length (s' p) = length (s p)) \<and>
     (\<forall>p k. k \<noteq> i \<longrightarrow> s' p ! k = s p ! k) \<and>
     (\<forall>p. p \<notin> set (if stg then stage_targets sch else initialize_targets sch) \<longrightarrow>
        s' p = s p) \<and>
     (stg \<longrightarrow> (\<forall>p \<in> fst ` set (predictors sch). s' p = s p)) \<and>
     (\<forall>t. valid_index t i \<and> particle t i = particle s i \<longrightarrow>
        (\<exists>t'. f i t = Some t' \<and> particle t' i = particle s' i)) \<and>
     (f i s \<bind> f j) = (f j s \<bind> f i) \<and> (f i s \<bind> f j) \<noteq> None"
proof -
  let ?ws = "if stg then stage_targets sch else initialize_targets sch"
  have w: "writes_only f ?ws"
    by (rule operations_write [OF assms(1)])
  then obtain k where k: "acts_on_particle f k"
    unfolding writes_only_def by blast
  from writes_only_run [OF w assms(2)]
  obtain s' where run: "f i s = Some s'"
    and len: "\<forall>p. length (s' p) = length (s p)"
    and others: "\<forall>p k. k \<noteq> i \<longrightarrow> s' p ! k = s p ! k"
    and frame: "\<forall>p. p \<notin> set ?ws \<longrightarrow> s' p = s p"
    by blast
  have predictors: "\<forall>p \<in> fst ` set (predictors sch). s' p = s p" if stg
    using that frame stage_targets_predictors [of sch] by auto
  have reads: "\<exists>t'. f i t = Some t' \<and> particle t' i = particle s' i"
    if "valid_index t i \<and> particle t i = particle s i" for t
    using acts_on_particle_reads [OF k assms(2), of t] that run by auto
  have "(f i s \<bind> f j) = Some (put (put s i (k (particle s i))) j (k (particle s j)))"
    by (rule acts_on_particle_commute [OF k assms(2,3,4)])
  moreover have "(f j s \<bind> f i) = Some (put (put s j (k (particle s j))) i (k (particle s i)))"
    using assms(4) by (intro acts_on_particle_commute [OF k assms(3,2)]) simp
  ultimately have "(f i s \<bind> f j) = (f j s \<bind> f i)" and "(f i s \<bind> f j) \<noteq> None"
    using assms(4) by (simp_all add: put_put_swap)
  with run len others frame predictors reads show ?thesis
    by blast
qed

theorem operations_are_local_witness:
  "(True, \<lambda>d_idx. WCSPHStep_stage1 d_idx 2) \<in> set (operations WCSPHStep 2) \<and>
   valid_index example_group 0 \<and> valid_index example_group 1 \<and>
   (WCSPHStep_stage1 0 2 example_group \<bind> WCSPHStep_stage1 1 2) =
     (WCSPHStep_stage1 1 2 example_group \<bind> WCSPHStep_stage1 0 2) \<and>
   (WCSPHStep_stage1 0 2 example_group \<bind> WCSPHStep_stage1 1 2) \<noteq> None"
proof -
  have f: "(True, \<lambda>d_idx. WCSPHStep_stage1 d_idx 2) \<in> set (operations WCSPHStep 2)"
    by (simp add: operations_def)
  have v: "valid_index example_group 0" "valid_index example_group 1"
    by (simp_all add: valid_index_def example_group_def)
  have d: "(0 :: nat) \<noteq> 1"
    by simp
  from operations_are_local [OF f v d] f v show ?thesis
    by blast
qed

text \<open>
  Claim C6 as stated fails where it confines the reads to predictor and constant
  properties: \<^verbatim>\<open>EulerStep.stage1\<close> reads the current velocity. Two groups that differ in
  nothing but the current property \<^verbatim>\<open>d_u\<close> of particle 0 (1 in the one, 5 in the other) get
  different velocities and positions stored.
\<close>

theorem stage_reads_current_counterexample:
  "EulerStep_stage1 0 2 example_group =
     Some (example_group(d_u := [7, 2], d_v := [3, 2], d_w := [3, 2],
       d_x := [15, 2], d_y := [7, 2], d_z := [7, 2], d_rho := [3, 2])) \<and>
   EulerStep_stage1 0 2 (example_group(d_u := [5, 2])) =
     Some (example_group(d_u := [11, 2], d_v := [3, 2], d_w := [3, 2],
       d_x := [23, 2], d_y := [7, 2], d_z := [7, 2], d_rho := [3, 2]))"
  by (simp add: EulerStep_stage1_def getitem_def setitem_def example_group_def fun_eq_iff)

section \<open>The symplectic Verlet step\<close>

text \<open>
  Claim C7. For \<^verbatim>\<open>VerletSymplecticWCSPHStep\<close>, at an index within the arrays that the method
  takes: \<^verbatim>\<open>stage1\<close> returns the arrays with only the position changed, by \<open>dt / 2\<close> times the
  velocity, so the velocity is as before; \<^verbatim>\<open>stage2\<close> returns the arrays with the velocity
  advanced by \<open>dt\<close> times the acceleration \<^verbatim>\<open>d_au, d_av, d_aw\<close> and the position by \<open>dt / 2\<close>
  times \<^verbatim>\<open>d_ax, d_ay, d_az\<close>, not times the velocity. Neither stage reads or writes the
  density \<^verbatim>\<open>d_rho\<close> or its rate \<^verbatim>\<open>d_arho\<close>: whatever arrays stand there, of whatever length,
  the stage does the same and leaves them in place.
\<close>

theorem VerletSymplecticWCSPHStep_stages:
  "((\<forall>p \<in> set [d_x, d_y, d_z, d_u, d_v, d_w]. i < length (s p)) \<longrightarrow>
     VerletSymplecticWCSPHStep_stage1 i dt s =
       Some (s(d_x := (s d_x)[i := s d_x ! i + dt / 2 * s d_u ! i],
               d_y := (s d_y)[i := s d_y ! i + dt / 2 * s d_v ! i],
               d_z := (s d_z)[i := s d_z ! i + dt / 2 * s d_w ! i]))) \<and>
   ((\<forall>p \<in> set [d_x, d_y, d_z, d_ax, d_ay, d_az, d_u, d_v, d_w, d_au, d_av, d_aw].
       i < length (s p)) \<longrightarrow>
     VerletSymplecticWCSPHStep_stage2 i dt s =
       Some (s(d_u := (s d_u)[i := s d_u ! i + dt * s d_au ! i],
               d_v := (s d_v)[i := s d_v ! i + dt * s d_av ! i],
               d_w := (s d_w)[i := s d_w ! i + dt * s d_aw ! i],
               d_x := (s d_x)[i := s d_x ! i + dt / 2 * s d_ax ! i],
               d_y := (s d_y)[i := s d_y ! i + dt / 2 * s d_ay ! i],
               d_z := (s d_z)[i := s d_z ! i + dt / 2 * s d_az ! i]))) \<and>
   VerletSymplecticWCSPHStep_stage1 i dt (s(d_rho := a, d_arho := b)) =
     map_option (\<lambda>s'. s'(d_rho := a, d_arho := b)) (VerletSymplecticWCSPHStep_stage1 i dt s) \<and>
   VerletSymplecticWCSPHStep_stage2 i dt (s(d_rho := a, d_arho := b)) =
     map_option (\<lambda>s'. s'(d_rho := a, d_arho := b)) (VerletSymplecticWCSPHStep_stage2 i dt s)"
proof -
  have stage1: "VerletSymplecticWCSPHStep_stage1 i dt s =
       Some (s(d_x := (s d_x)[i := s d_x ! i + dt / 2 * s d_u ! i],
               d_y := (s d_y)[i := s d_y ! i + dt / 2 * s d_v ! i],
               d_z := (s d_z)[i := s d_z ! i + dt / 2 * s d_w ! i]))"
    if "\<forall>p \<in> set [d_x, d_y, d_z, d_u, d_v, d_w]. i < length (s p)" for s
    using that by (simp add: VerletSymplecticWCSPHStep_stage1_def getitem_def setitem_def)
  have stage2: "VerletSymplecticWCSPHStep_stage2 i dt s =
       Some (s(d_u := (s d_u)[i := s d_u ! i + dt * s d_au ! i],
               d_v := (s d_v)[i := s d_v ! i + dt * s d_av ! i],
               d_w := (s d_w)[i := s d_w ! i + dt * s d_aw ! i],
               d_x := (s d_x)[i := s d_x ! i + dt / 2 * s d_ax ! i],
               d_y := (s d_y)[i := s d_y ! i + dt / 2 * s d_ay ! i],
               d_z := (s d_z)[i := s d_z ! i + dt / 2 * s d_az ! i]))"
    if "\<forall>p \<in> set [d_x, d_y, d_z, d_ax, d_ay, d_az, d_u, d_v, d_w, d_au, d_av, d_aw].
       i < length (s p)" for s
    using that by (simp add: VerletSymplecticWCSPHStep_stage2_def getitem_def setitem_def)
  have free1: "VerletSymplecticWCSPHStep_stage1 i dt (s(q := c)) =
     map_option (\<lambda>s'. s'(q := c)) (VerletSymplecticWCSPHStep_stage1 i dt s)"
    if "q = d_rho \<or> q = d_arho" for s q c
    using that
    by (auto simp add: VerletSymplecticWCSPHStep_stage1_def Let_def getitem_other setitem_other
        bind_map_option map_option_bind comp_def)
  have free2: "VerletSymplecticWCSPHStep_stage2 i dt (s(q := c)) =
     map_option (\<lambda>s'. s'(q := c)) (VerletSymplecticWCSPHStep_stage2 i dt s)"
    if "q = d_rho \<or> q = d_arho" for s q c
    using that
    by (auto simp add: VerletSymplecticWCSPHStep_stage2_def Let_def getitem_other setitem_other
        bind_map_option map_option_bind comp_def)
  have both1: "VerletSymplecticWCSPHStep_stage1 i dt (s(d_rho := a, d_arho := b)) =
     map_option (\<lambda>s'. s'(d_rho := a, d_arho := b)) (VerletSymplecticWCSPHStep_stage1 i dt s)"
    by (simp add: free1 option.map_comp comp_def)
  have both2: "VerletSymplecticWCSPHStep_stage2 i dt (s(d_rho := a, d_arho := b)) =
     map_option (\<lambda>s'. s'(d_rho := a, d_arho := b)) (VerletSymplecticWCSPHStep_stage2 i dt s)"
    by (simp add: free2 option.map_comp comp_def)
  from stage1 stage2 both1 both2 show ?thesis
    by blast
qed

theorem VerletSymplecticWCSPHStep_stages_witness:
  "VerletSymplecticWCSPHStep_stage1 0 2 example_group =
     Some (example_group(d_x := [2, 2], d_y := [2, 2], d_z := [2, 2])) \<and>
   VerletSymplecticWCSPHStep_stage2 0 2 example_group =
     Some (example_group(d_u := [7, 2], d_v := [3, 2], d_w := [3, 2],
       d_x := [5, 2], d_y := [2, 2], d_z := [2, 2]))"
  using VerletSymplecticWCSPHStep_stages [of 0 example_group 2]
  by (simp add: example_group_def)

section \<open>The Euler step\<close>

text \<open>
  Claim C8. At every particle index and for all arrays, \<^verbatim>\<open>EulerStep.initialize\<close> changes
  nothing. At a valid index \<^verbatim>\<open>EulerStep.stage1\<close> returns, and in its result the velocity is
  the old velocity plus \<open>dt\<close> times the acceleration, the position is the old position plus
  \<open>dt\<close> times the new velocity, and the density is the old density plus \<open>dt\<close> times its
  rate.
\<close>

theorem EulerStep_stage1_update:
  "EulerStep_initialize i s = Some s \<and>
   (valid_index s i \<longrightarrow>
     (\<exists>s'. EulerStep_stage1 i dt s = Some s' \<and>
     s' d_u ! i = s d_u ! i + dt * s d_au ! i \<and>
     s' d_v ! i = s d_v ! i + dt * s d_av ! i \<and>
     s' d_w ! i = s d_w ! i + dt * s d_aw ! i \<and>
     s' d_x ! i = s d_x ! i + dt * s' d_u ! i \<and>
     s' d_y ! i = s d_y ! i + dt * s' d_v ! i \<and>
     s' d_z ! i = s d_z ! i + dt * s' d_w ! i \<and>
     s' d_rho ! i = s d_rho ! i + dt * s d_arho ! i))"
proof -
  have "\<exists>s'. EulerStep_stage1 i dt s = Some s' \<and>
     s' d_u ! i = s d_u ! i + dt * s d_au ! i \<and>
     s' d_v ! i = s d_v ! i + dt * s d_av ! i \<and>
     s' d_w ! i = s d_w ! i + dt * s d_aw ! i \<and>
     s' d_x ! i = s d_x ! i + dt * s' d_u ! i \<and>
     s' d_y ! i = s d_y ! i + dt * s' d_v ! i \<and>
     s' d_z ! i = s d_z ! i + dt * s' d_w ! i \<and>
     s' d_rho ! i = s d_rho ! i + dt * s d_arho ! i"
    if v: "valid_index s i"
  proof -
    have len: "\<And>p. i < length (s p)"
      using v by (simp add: valid_index_def)
    show ?thesis
      by (rule via_put [where F = "EulerStep_stage1 i dt" and i = i])
        (simp add: EulerStep_stage1_put v, simp add: nth_put_same len particle_def)
  qed
  then show ?thesis
    by (simp add: EulerStep_initialize_def)
qed

theorem EulerStep_stage1_update_witness:
  "valid_index example_group 0 \<and>
   (\<exists>s'. EulerStep_stage1 0 2 example_group = Some s' \<and>
     s' d_u ! 0 = 7 \<and> s' d_x ! 0 = 15 \<and> s' d_rho ! 0 = 3)"
proof -
  have v: "valid_index example_group 0"
    by (simp add: valid_index_def example_group_def)
  from EulerStep_stage1_update [of 0 example_group 2] v
  obtain s' where "EulerStep_stage1 0 2 example_group = Some s'"
    and "s' d_u ! 0 = example_group d_u ! 0 + 2 * example_group d_au ! 0"
    and "s' d_x ! 0 = example_group d_x ! 0 + 2 * s' d_u ! 0"
    and "s' d_rho ! 0 = example_group d_rho ! 0 + 2 * example_group d_arho ! 0"
    by blast
  then show ?thesis
    using v by (simp add: example_group_def)
qed

section \<open>The output arrays of a saved group\<close>

text \<open>
  Claim C9. For every particle group and all solver data, after the output arrays of the
  group are set to \<open>x, y, u\<close>, dumping the group and loading the dump gives, under the name
  of the group, a group whose list of output arrays is \<open>x, y, u\<close>, in this order.
\<close>

theorem output_arrays_saved:
  "map_option output_property_arrays
     (loaded_arrays (load (dump [set_output_arrays pa [''x'', ''y'', ''u'']] sd))
        (array_name pa)) =
   Some [''x'', ''y'', ''u'']"
  by (simp add: load_def dump_def dump_group_def load_group_def set_output_arrays_def)

section \<open>The advection velocity of the transport velocity step\<close>

text \<open>
  Claim C10. At a valid particle index \<^verbatim>\<open>TransportVelocityStep.stage1\<close> returns; the velocity
  is advanced by \<open>dt / 2\<close> times the acceleration, and the advection velocity \<^verbatim>\<open>d_uhat\<close>,
  \<^verbatim>\<open>d_vhat\<close> is set to the new velocity plus \<open>dt / 2\<close> times \<^verbatim>\<open>d_auhat\<close>, \<^verbatim>\<open>d_avhat\<close>. Its
  previous value is not read: with any other arrays \<open>a\<close> and \<open>b\<close> for the advection velocity
  the stage stores the same values at the particle. With \<open>dt = 0\<close> the stage changes
  nothing but the advection velocity of the particle, which becomes the velocity
  \<^verbatim>\<open>d_u\<close>, \<^verbatim>\<open>d_v\<close>; position, velocity and density stay as they are.
\<close>

theorem TransportVelocityStep_stage1_advection:
  assumes "valid_index s i"
  shows "\<exists>s'. TransportVelocityStep_stage1 i dt s = Some s' \<and>
     s' d_u ! i = s d_u ! i + dt / 2 * s d_au ! i \<and>
     s' d_v ! i = s d_v ! i + dt / 2 * s d_av ! i \<and>
     s' d_uhat ! i = s' d_u ! i + dt / 2 * s d_auhat ! i \<and>
     s' d_vhat ! i = s' d_v ! i + dt / 2 * s d_avhat ! i \<and>
     (\<forall>a b. i < length a \<and> i < length b \<longrightarrow>
        TransportVelocityStep_stage1 i dt (s(d_uhat := a, d_vhat := b)) =
          Some (s'(d_uhat := a[i := s' d_uhat ! i], d_vhat := b[i := s' d_vhat ! i]))) \<and>
     TransportVelocityStep_stage1 i 0 s =
       Some (s(d_uhat := (s d_uhat)[i := s d_u ! i], d_vhat := (s d_vhat)[i := s d_v ! i]))"
proof -
  have len: "\<And>p. i < length (s p)"
    using assms by (simp add: valid_index_def)
  have run: "TransportVelocityStep_stage1 i dt t =
     Some (t(d_u := (t d_u)[i := t d_u ! i + dt / 2 * t d_au ! i],
             d_v := (t d_v)[i := t d_v ! i + dt / 2 * t d_av ! i],
             d_uhat := (t d_uhat)[i := t d_u ! i + dt / 2 * t d_au ! i + dt / 2 * t d_auhat ! i],
             d_vhat := (t d_vhat)[i := t d_v ! i + dt / 2 * t d_av ! i + dt / 2 * t d_avhat ! i],
             d_x := (t d_x)[i := t d_x ! i
               + dt * (t d_u ! i + dt / 2 * t d_au ! i + dt / 2 * t d_auhat ! i)],
             d_y := (t d_y)[i := t d_y ! i
               + dt * (t d_v ! i + dt / 2 * t d_av ! i + dt / 2 * t d_avhat ! i)]))"
    if "\<And>p. i < length (t p)" for t dt
    using that by (simp add: TransportVelocityStep_stage1_def getitem_def setitem_def)
  have other: "\<And>p. i < length ((s(d_uhat := a, d_vhat := b)) p)"
    if "i < length a" and "i < length b" for a b
    using that len by simp
  show ?thesis
    by (intro exI conjI allI impI, rule run [OF len])
      (simp_all add: len run [OF other] run [OF len, of 0] fun_eq_iff)
qed

theorem TransportVelocityStep_stage1_advection_witness:
  "valid_index example_group 0 \<and>
   (\<exists>s'. TransportVelocityStep_stage1 0 2 example_group = Some s' \<and>
     s' d_u ! 0 = 4 \<and> s' d_uhat ! 0 = 5 \<and>
     TransportVelocityStep_stage1 0 0 example_group =
       Some (example_group(d_uhat := [1, 8], d_vhat := [1, 2])))"
proof -
  have v: "valid_index example_group 0"
    by (simp add: valid_index_def example_group_def)
  from TransportVelocityStep_stage1_advection [OF v, of 2]
  obtain s' where "TransportVelocityStep_stage1 0 2 example_group = Some s'"
    and "s' d_u ! 0 = example_group d_u ! 0 + 2 / 2 * example_group d_au ! 0"
    and "s' d_uhat ! 0 = s' d_u ! 0 + 2 / 2 * example_group d_auhat ! 0"
    and "TransportVelocityStep_stage1 0 0 example_group =
       Some (example_group(d_uhat := (example_group d_uhat)[0 := example_group d_u ! 0],
         d_vhat := (example_group d_vhat)[0 := example_group d_v ! 0]))"
    by blast
  then show ?thesis
    using v by (simp add: example_group_def)
qed

end
